theory Spec2Isabelle
  imports Main
begin

section \<open>Strings as the processor uses them\<close>

text \<open>
  Strings are lists of 8-bit characters, read as the Latin-1 range of JavaScript's
  UTF-16 code units. The functions below are the \<^verbatim>\<open>String.prototype\<close> methods and
  the two regular expressions that \<^verbatim>\<open>customPromptProcessor.ts\<close> applies.
\<close>

text \<open>\<^verbatim>\<open>trim()\<close> strips WhiteSpace and LineTerminator code units from both ends: in
  this range TAB, LF, VT, FF, CR, SP and NBSP.\<close>

definition isSpace :: "char \<Rightarrow> bool" where
  "isSpace c = (c \<in> set [CHR 0x09, CHR 0x0A, CHR 0x0B, CHR 0x0C, CHR 0x0D, CHR 0x20, CHR 0xA0])"

definition trim :: "string \<Rightarrow> string" where
  "trim s = rev (dropWhile isSpace (rev (dropWhile isSpace s)))"

text \<open>\<^verbatim>\<open>toLowerCase()\<close>: A-Z and the upper-case letters of Latin-1 move up by 32.\<close>

definition toLowerChar :: "char \<Rightarrow> char" where
  "toLowerChar c =
     (let n = (of_char c :: nat)
      in if (65 \<le> n \<and> n \<le> 90) \<or> (192 \<le> n \<and> n \<le> 222 \<and> n \<noteq> 215)
         then char_of (n + 32) else c)"

definition toLowerCase :: "string \<Rightarrow> string" where
  "toLowerCase s = map toLowerChar s"

fun startsWith :: "string \<Rightarrow> string \<Rightarrow> bool" where
  "startsWith s [] = True"
| "startsWith [] (c # cs) = False"
| "startsWith (x # xs) (c # cs) = (x = c \<and> startsWith xs cs)"

text \<open>\<^verbatim>\<open>s.includes(sub)\<close>: a search for \<open>sub\<close> at every position of \<open>s\<close>.\<close>

fun includesStr :: "string \<Rightarrow> string \<Rightarrow> bool" where
  "includesStr [] sub = (sub = [])"
| "includesStr (x # xs) sub = (startsWith (x # xs) sub \<or> includesStr xs sub)"

text \<open>\<^verbatim>\<open>s.split(sep)\<close> for a one-character separator: never an empty array.\<close>

fun split :: "char \<Rightarrow> string \<Rightarrow> string list" where
  "split sep [] = [[]]"
| "split sep (c # cs) =
     (if c = sep then [] # split sep cs
      else (case split sep cs of [] \<Rightarrow> [[c]] | w # ws \<Rightarrow> (c # w) # ws))"

text \<open>\<^verbatim>\<open>parts.join(sep)\<close>.\<close>

fun join :: "string \<Rightarrow> string list \<Rightarrow> string" where
  "join sep [] = []"
| "join sep [x] = x"
| "join sep (x # y # ys) = x @ sep @ join sep (y # ys)"

text \<open>
  The global regular expression \<^verbatim>\<open>/\{([^}]+)\}/g\<close>, as both \<^verbatim>\<open>exec\<close> in a loop and
  \<^verbatim>\<open>matchAll\<close> run it: the list of the first capture group of every match, left to
  right. At an opening brace the class \<^verbatim>\<open>[^}]+\<close> takes every character up to the next
  closing brace; the match fails there when that run is empty or the string ends
  first, and the scan resumes one character further. After a match it resumes behind
  the closing brace.
\<close>

function scanVariables :: "string \<Rightarrow> string list" where
  "scanVariables [] = []"
| "scanVariables (c # cs) =
     (if c = CHR ''{'' \<and> takeWhile (\<lambda>x. x \<noteq> CHR ''}'') cs \<noteq> []
           \<and> dropWhile (\<lambda>x. x \<noteq> CHR ''}'') cs \<noteq> []
      then takeWhile (\<lambda>x. x \<noteq> CHR ''}'') cs
             # scanVariables (tl (dropWhile (\<lambda>x. x \<noteq> CHR ''}'') cs))
      else scanVariables cs)"
  by pat_completeness auto
termination
proof (relation "measure length")
  show "wf (measure length)" by simp
next
  fix c :: char and cs :: string
  have "length (dropWhile (\<lambda>x. x \<noteq> CHR ''}'') cs) \<le> length cs"
    by (rule length_dropWhile_le)
  then have "length (tl (dropWhile (\<lambda>x. x \<noteq> CHR ''}'') cs)) \<le> length cs"
    by simp
  then show "(tl (dropWhile (\<lambda>x. x \<noteq> CHR ''}'') cs), c # cs) \<in> measure length"
    by simp
next
  fix c :: char and cs :: string
  show "(cs, c # cs) \<in> measure length" by simp
qed

text \<open>\<^verbatim>\<open>s.replace(/\{\}/g, "{selectedText}")\<close>.\<close>

fun replaceEmptyBraces :: "string \<Rightarrow> string" where
  "replaceEmptyBraces (a # b # cs) =
     (if a = CHR ''{'' \<and> b = CHR ''}'' then ''{selectedText}'' @ replaceEmptyBraces cs
      else a # replaceEmptyBraces (b # cs))"
| "replaceEmptyBraces cs = cs"

text \<open>A \<^verbatim>\<open>string | null\<close> value inside a template literal or a console line, and its
  truthiness.\<close>

fun strOf :: "string option \<Rightarrow> string" where
  "strOf None = ''null''"
| "strOf (Some s) = s"

fun truthy :: "string option \<Rightarrow> bool" where
  "truthy None = False"
| "truthy (Some s) = (s \<noteq> [])"

section \<open>The vault, the helpers and the processor\<close>

text \<open>
  What a call leaves behind besides its result: the notifications shown to the user
  (\<^verbatim>\<open>new Notice(...)\<close>) and the lines written with \<^verbatim>\<open>console.log\<close> (its arguments
  joined by one space), in the order they happen.
\<close>

datatype effect = Notice string | ConsoleLog string

text \<open>
  The vault of the host application: the entry stored at each path, in listing order.
  A \<^verbatim>\<open>TFile\<close> handle is represented by the path of its file.
\<close>

datatype entry = File string | Folder

type_synonym vault = "(string \<times> entry) list"

text \<open>
  The functions imported from \<^verbatim>\<open>@/utils\<close> are not part of the sources at hand. The
  processor is therefore modelled over an arbitrary implementation of them: read-only
  queries of the vault and of their arguments. \<open>getFileContent\<close> takes the optional
  heading as its third argument and returns \<^verbatim>\<open>string | null\<close>.
\<close>

record utils =
  extractNoteTitles :: "string \<Rightarrow> string list"
  getFileContent :: "string \<Rightarrow> vault \<Rightarrow> string option \<Rightarrow> string option"
  getFileName :: "string \<Rightarrow> string"
  getNoteFileFromTitle :: "vault \<Rightarrow> string \<Rightarrow> string option"
  getNotesFromPath :: "vault \<Rightarrow> string \<Rightarrow> string list"
  getNotesFromTags :: "vault \<Rightarrow> string list \<Rightarrow> string list"
  processVariableNameForNotePath :: "string \<Rightarrow> string"

text \<open>
  The \<^verbatim>\<open>CustomPromptProcessor\<close> instance with everything it can reach: its vault, the
  folder of the settings, the optional usage strategy (the time stamp recorded for each
  title) and the effects emitted so far.
\<close>

record processor =
  vault :: vault
  customPromptsFolder :: string
  usageStrategy :: "(string \<times> nat) list option"
  effects :: "effect list"

definition emit :: "effect list \<Rightarrow> processor \<Rightarrow> processor" where
  "emit es p = p\<lparr>effects := effects p @ es\<rparr>"

section \<open>extractVariablesFromPrompt\<close>

text \<open>The two \<^verbatim>\<open>for (const file of noteFiles)\<close> loops: a note is pushed when its
  content is truthy. The loop of the path branch also logs every content it reads.\<close>

fun notesOfFiles :: "utils \<Rightarrow> vault \<Rightarrow> string list \<Rightarrow> (string \<times> string) list" where
  "notesOfFiles u v [] = []"
| "notesOfFiles u v (f # fs) =
     (if truthy (getFileContent u f v None)
      then (getFileName u f, strOf (getFileContent u f v None)) # notesOfFiles u v fs
      else notesOfFiles u v fs)"

definition contentLog :: "utils \<Rightarrow> vault \<Rightarrow> string list \<Rightarrow> effect list" where
  "contentLog u v fs = map (\<lambda>f. ConsoleLog (''note content: '' @ strOf (getFileContent u f v None))) fs"

text \<open>The three branches that fill \<^verbatim>\<open>notes\<close> for one trimmed variable name.\<close>

definition variableNotes ::
  "utils \<Rightarrow> vault \<Rightarrow> string option \<Rightarrow> string \<Rightarrow> (string \<times> string) list \<times> effect list" where
  "variableNotes u v activeNote variableName =
     (if toLowerCase variableName = ''activenote'' then
        (case activeNote of
           Some f \<Rightarrow>
             (if truthy (getFileContent u f v None)
              then ([(getFileName u f, strOf (getFileContent u f v None))], [])
              else ([], []))
         | None \<Rightarrow> ([], [Notice ''No active note found.'']))
      else if startsWith variableName ''#'' then
        (let tagNames = map trim (split CHR '','' (drop 1 variableName));
             noteFiles = getNotesFromTags u v tagNames
         in (notesOfFiles u v noteFiles, []))
      else
        (let processedVariableName = processVariableNameForNotePath u variableName;
             noteFiles = getNotesFromPath u v processedVariableName
         in (notesOfFiles u v noteFiles, contentLog u v noteFiles)))"

definition markdownContent :: "(string \<times> string) list \<Rightarrow> string" where
  "markdownContent notes =
     join ''\<newline>\<newline>'' (map (\<lambda>(name, content). ''## '' @ name @ ''\<newline>\<newline>'' @ content) notes)"

definition noNotesWarning :: "string \<Rightarrow> effect" where
  "noNotesWarning variableName =
     Notice (''Warning: No valid notes found for the provided path '' @ [CHR 0x27]
             @ variableName @ [CHR 0x27] @ ''.'')"

text \<open>One turn of the \<^verbatim>\<open>while\<close> loop, for the capture group \<open>m\<close> of one match: what
  it pushes on \<^verbatim>\<open>variablesWithContent\<close> (nothing or one string) and what it emits.\<close>

definition variableStep ::
  "utils \<Rightarrow> vault \<Rightarrow> string option \<Rightarrow> string \<Rightarrow> string list \<times> effect list" where
  "variableStep u v activeNote m =
     (let variableName = trim m;
          (notes, es) = variableNotes u v activeNote variableName
      in if notes \<noteq> [] then ([markdownContent notes], es)
         else ([], es @ [noNotesWarning variableName]))"

fun variableLoop ::
  "utils \<Rightarrow> vault \<Rightarrow> string option \<Rightarrow> string list \<Rightarrow> string list \<times> effect list" where
  "variableLoop u v activeNote [] = ([], [])"
| "variableLoop u v activeNote (m # ms) =
     (let (c, es) = variableStep u v activeNote m;
          (cs, es') = variableLoop u v activeNote ms
      in (c @ cs, es @ es'))"

definition extractVariablesFromPrompt ::
  "utils \<Rightarrow> processor \<Rightarrow> string \<Rightarrow> string option \<Rightarrow> string list \<times> processor" where
  "extractVariablesFromPrompt u p customPrompt activeNote =
     (let p1 = emit [ConsoleLog (''*** EXTRACT VARIABLES FROM PROMPT ***\<newline>prompt: '' @ customPrompt)] p;
          (variablesWithContent, es) = variableLoop u (vault p1) activeNote (scanVariables customPrompt)
      in (variablesWithContent, emit es p1))"

section \<open>processCustomPrompt\<close>

text \<open>The \<^verbatim>\<open>if (processedPrompt.includes("{}"))\<close> block: the processed prompt, the
  additional info it starts and \<^verbatim>\<open>activeNoteContent\<close>.\<close>

definition selectionPlaceholder ::
  "utils \<Rightarrow> vault \<Rightarrow> string \<Rightarrow> string \<Rightarrow> string option \<Rightarrow> string \<times> string \<times> string option" where
  "selectionPlaceholder u v customPrompt selectedText activeNote =
     (if includesStr customPrompt ''{}'' then
        (if selectedText \<noteq> [] then
           (replaceEmptyBraces customPrompt, ''selectedText:\<newline>\<newline> '' @ selectedText, None)
         else
           (case activeNote of
              Some f \<Rightarrow>
                (replaceEmptyBraces customPrompt,
                 ''selectedText (entire active note):\<newline>\<newline> '' @ strOf (getFileContent u f v None),
                 getFileContent u f v None)
            | None \<Rightarrow>
                (replaceEmptyBraces customPrompt,
                 ''selectedText:\<newline>\<newline> (No selected text or active note available)'',
                 None)))
      else (customPrompt, [], None))"

text \<open>
  The loop \<^verbatim>\<open>for (let i = 0; i < variablesWithContent.length; i++)\<close>: it walks
  \<^verbatim>\<open>matches\<close> and \<^verbatim>\<open>variablesWithContent\<close> by the same index, so the two lists are
  consumed in step; an index beyond \<^verbatim>\<open>matches\<close> (\<^verbatim>\<open>matches[i]\<close> undefined) adds nothing.
\<close>

fun appendVariables :: "string list \<Rightarrow> string list \<Rightarrow> string option \<Rightarrow> string \<Rightarrow> string" where
  "appendVariables matches [] activeNoteContent additionalInfo = additionalInfo"
| "appendVariables [] (c # cs) activeNoteContent additionalInfo =
     appendVariables [] cs activeNoteContent additionalInfo"
| "appendVariables (varname # matches) (c # cs) activeNoteContent additionalInfo =
     (if toLowerCase varname = ''activenote'' \<and> truthy activeNoteContent
      then appendVariables matches cs activeNoteContent additionalInfo
      else appendVariables matches cs activeNoteContent
             (additionalInfo @ ''\<newline>\<newline>'' @ varname @ '':\<newline>\<newline>'' @ c))"

text \<open>The test \<^verbatim>\<open>matches.some((match) => match[1].includes(`[[${noteTitle}]]`))\<close>.\<close>

definition alreadyProcessed :: "string list \<Rightarrow> string \<Rightarrow> bool" where
  "alreadyProcessed matches noteTitle =
     list_ex (\<lambda>m. includesStr m (''[['' @ noteTitle @ '']]'')) matches"

text \<open>
  The body of the note-title loop behind that test. Its state is the additional info,
  \<^verbatim>\<open>noteHeading\<close> (declared before the loop) and the effects of the loop so far. A
  title with a \<^verbatim>\<open>#\<close> splits into at least two parts, of which the first two are used.
\<close>

definition parseNoteTitle :: "string \<Rightarrow> string option \<Rightarrow> string \<times> string option" where
  "parseNoteTitle noteTitle noteHeading =
     (if includesStr noteTitle ''#'' then
        (case map trim (split CHR ''#'' noteTitle) of
           titlePart # headingPart # _ \<Rightarrow> (titlePart, Some headingPart)
         | [titlePart] \<Rightarrow> (titlePart, None)
         | [] \<Rightarrow> ([], None))
      else (noteTitle, noteHeading))"

definition headingLog :: "string option \<Rightarrow> string" where
  "headingLog h = (case h of None \<Rightarrow> ''undefined'' | Some x \<Rightarrow> x)"

definition resolveNoteTitle ::
  "utils \<Rightarrow> vault \<Rightarrow> string \<Rightarrow> string \<times> string option \<times> effect list
     \<Rightarrow> string \<times> string option \<times> effect list" where
  "resolveNoteTitle u v noteTitle s =
     (case s of (additionalInfo, noteHeading0, es) \<Rightarrow>
        (let (parsedNoteTitle, noteHeading) = parseNoteTitle noteTitle noteHeading0;
             es1 = es @ [ConsoleLog (''note title passed to getNoteFileFromTitle: '' @ parsedNoteTitle),
                         ConsoleLog (''note heading: '' @ headingLog noteHeading)]
         in case getNoteFileFromTitle u v parsedNoteTitle of
              Some noteFile \<Rightarrow>
                (let noteContent = getFileContent u noteFile v noteHeading
                 in (additionalInfo @ ''\<newline>\<newline>[['' @ noteTitle @ '']]:\<newline>\<newline>'' @ strOf noteContent,
                     noteHeading,
                     es1 @ [ConsoleLog (''getting note content for:  '' @ parsedNoteTitle),
                            ConsoleLog (''note content returned:\<newline> '' @ strOf noteContent)]))
            | None \<Rightarrow> (additionalInfo, noteHeading, es1)))"

definition noteTitleStep ::
  "utils \<Rightarrow> vault \<Rightarrow> string list \<Rightarrow> string \<Rightarrow> string \<times> string option \<times> effect list
     \<Rightarrow> string \<times> string option \<times> effect list" where
  "noteTitleStep u v matches noteTitle s =
     (if \<not> alreadyProcessed matches noteTitle then resolveNoteTitle u v noteTitle s else s)"

text \<open>The part of \<^verbatim>\<open>processCustomPrompt\<close> under the comment "Process [[note title]]
  syntax": \<^verbatim>\<open>noteHeading\<close> starts undefined, then the loop runs over the note titles.\<close>

definition processNoteTitles ::
  "utils \<Rightarrow> vault \<Rightarrow> string list \<Rightarrow> string list \<Rightarrow> string
     \<Rightarrow> string \<times> string option \<times> effect list" where
  "processNoteTitles u v matches noteTitles additionalInfo =
     fold (noteTitleStep u v matches) noteTitles (additionalInfo, None, [])"

definition processCustomPrompt ::
  "utils \<Rightarrow> processor \<Rightarrow> string \<Rightarrow> string \<Rightarrow> string option \<Rightarrow> string \<times> processor" where
  "processCustomPrompt u p customPrompt selectedText activeNote =
     (let p0 = emit [ConsoleLog ''*** PROCESS CUSTOM PROMPT ***''] p;
          (variablesWithContent, p1) = extractVariablesFromPrompt u p0 customPrompt activeNote;
          matches = scanVariables customPrompt;
          (processedPrompt, additionalInfo0, activeNoteContent) =
             selectionPlaceholder u (vault p1) customPrompt selectedText activeNote;
          additionalInfo1 = appendVariables matches variablesWithContent activeNoteContent additionalInfo0;
          p2 = emit [ConsoleLog (''extract note titles from processed prompt: '' @ processedPrompt)] p1;
          noteTitles = extractNoteTitles u processedPrompt;
          (additionalInfo, noteHeading, es) =
             processNoteTitles u (vault p2) matches noteTitles additionalInfo1
      in (processedPrompt @ ''\<newline>\<newline>'' @ additionalInfo, emit es p2))"

section \<open>processCustomPrompt over helpers that may write\<close>

text \<open>
  Above, a helper is a function of the vault and of its arguments. The helpers are
  awaited calls into the host application, and nothing in the code of the processor
  keeps one of them from changing what a later call reads. In this second reading of
  the same code a helper therefore takes the host state \<open>'w\<close> (whatever stands behind
  \<^verbatim>\<open>this.vault\<close>) and returns its result with the host state it leaves; the processor
  returns its string, the effects it emitted, and the host state after its last call.
\<close>

record 'w hostUtils =
  runExtractNoteTitles :: "string \<Rightarrow> 'w \<Rightarrow> string list \<times> 'w"
  runGetFileContent :: "string \<Rightarrow> string option \<Rightarrow> 'w \<Rightarrow> string option \<times> 'w"
  runGetFileName :: "string \<Rightarrow> 'w \<Rightarrow> string \<times> 'w"
  runGetNoteFileFromTitle :: "string \<Rightarrow> 'w \<Rightarrow> string option \<times> 'w"
  runGetNotesFromPath :: "string \<Rightarrow> 'w \<Rightarrow> string list \<times> 'w"
  runGetNotesFromTags :: "string list \<Rightarrow> 'w \<Rightarrow> string list \<times> 'w"
  runProcessVariableNameForNotePath :: "string \<Rightarrow> 'w \<Rightarrow> string \<times> 'w"

text \<open>
  The repository is the part of the host state that the specification calls the
  repository (vault) state: \<open>repo w\<close> is the vault of host state \<open>w\<close>. \<open>answersFrom repo u h\<close> says that every helper of \<open>h\<close>
  answers from the repository, as the helper of \<open>u\<close> does from the vault, and leaves the
  repository as it is. Whatever else the host state holds (caches, counters, clocks) the
  helpers may change.
\<close>

definition answersFrom :: "('w \<Rightarrow> vault) \<Rightarrow> utils \<Rightarrow> 'w hostUtils \<Rightarrow> bool" where
  "answersFrom repo u h \<longleftrightarrow>
     (\<forall>s w. fst (runExtractNoteTitles h s w) = extractNoteTitles u s
            \<and> repo (snd (runExtractNoteTitles h s w)) = repo w)
     \<and> (\<forall>f heading w. fst (runGetFileContent h f heading w) = getFileContent u f (repo w) heading
            \<and> repo (snd (runGetFileContent h f heading w)) = repo w)
     \<and> (\<forall>f w. fst (runGetFileName h f w) = getFileName u f
            \<and> repo (snd (runGetFileName h f w)) = repo w)
     \<and> (\<forall>title w. fst (runGetNoteFileFromTitle h title w) = getNoteFileFromTitle u (repo w) title
            \<and> repo (snd (runGetNoteFileFromTitle h title w)) = repo w)
     \<and> (\<forall>path w. fst (runGetNotesFromPath h path w) = getNotesFromPath u (repo w) path
            \<and> repo (snd (runGetNotesFromPath h path w)) = repo w)
     \<and> (\<forall>tags w. fst (runGetNotesFromTags h tags w) = getNotesFromTags u (repo w) tags
            \<and> repo (snd (runGetNotesFromTags h tags w)) = repo w)
     \<and> (\<forall>name w. fst (runProcessVariableNameForNotePath h name w) = processVariableNameForNotePath u name
            \<and> repo (snd (runProcessVariableNameForNotePath h name w)) = repo w)"

text \<open>
  The functions of the processor again, with every call of a helper threading the host
  state, in the order in which the source makes the calls. \<open>notesOfFilesHost\<close> is the
  loop \<^verbatim>\<open>for (const file of noteFiles)\<close>; \<open>logged\<close> tells the loop of the path branch,
  which logs each content, from the loop of the tag branch. \<^verbatim>\<open>getFileName\<close> is called
  only for a note that is pushed.
\<close>

fun notesOfFilesHost ::
  "'w hostUtils \<Rightarrow> bool \<Rightarrow> string list \<Rightarrow> 'w \<Rightarrow> ((string \<times> string) list \<times> effect list) \<times> 'w" where
  "notesOfFilesHost h logged [] w = (([], []), w)"
| "notesOfFilesHost h logged (f # fs) w =
     (case runGetFileContent h f None w of
        (content, w1) \<Rightarrow>
          (let es = (if logged then [ConsoleLog (''note content: '' @ strOf content)] else [])
           in if truthy content then
                (case runGetFileName h f w1 of
                   (name, w2) \<Rightarrow>
                     (case notesOfFilesHost h logged fs w2 of
                        ((notes, es'), w3) \<Rightarrow> (((name, strOf content) # notes, es @ es'), w3)))
              else
                (case notesOfFilesHost h logged fs w1 of
                   ((notes, es'), w3) \<Rightarrow> ((notes, es @ es'), w3))))"

definition variableNotesHost ::
  "'w hostUtils \<Rightarrow> string option \<Rightarrow> string \<Rightarrow> 'w \<Rightarrow> ((string \<times> string) list \<times> effect list) \<times> 'w" where
  "variableNotesHost h activeNote variableName w =
     (if toLowerCase variableName = ''activenote'' then
        (case activeNote of
           Some f \<Rightarrow>
             (case runGetFileContent h f None w of
                (content, w1) \<Rightarrow>
                  (if truthy content then
                     (case runGetFileName h f w1 of
                        (name, w2) \<Rightarrow> (([(name, strOf content)], []), w2))
                   else (([], []), w1)))
         | None \<Rightarrow> (([], [Notice ''No active note found.'']), w))
      else if startsWith variableName ''#'' then
        (case runGetNotesFromTags h (map trim (split CHR '','' (drop 1 variableName))) w of
           (noteFiles, w1) \<Rightarrow> notesOfFilesHost h False noteFiles w1)
      else
        (case runProcessVariableNameForNotePath h variableName w of
           (processedVariableName, w1) \<Rightarrow>
             (case runGetNotesFromPath h processedVariableName w1 of
                (noteFiles, w2) \<Rightarrow> notesOfFilesHost h True noteFiles w2)))"

definition variableStepHost ::
  "'w hostUtils \<Rightarrow> string option \<Rightarrow> string \<Rightarrow> 'w \<Rightarrow> (string list \<times> effect list) \<times> 'w" where
  "variableStepHost h activeNote m w =
     (case variableNotesHost h activeNote (trim m) w of
        ((notes, es), w1) \<Rightarrow>
          (if notes \<noteq> [] then (([markdownContent notes], es), w1)
           else (([], es @ [noNotesWarning (trim m)]), w1)))"

fun variableLoopHost ::
  "'w hostUtils \<Rightarrow> string option \<Rightarrow> string list \<Rightarrow> 'w \<Rightarrow> (string list \<times> effect list) \<times> 'w" where
  "variableLoopHost h activeNote [] w = (([], []), w)"
| "variableLoopHost h activeNote (m # ms) w =
     (case variableStepHost h activeNote m w of
        ((c, es), w1) \<Rightarrow>
          (case variableLoopHost h activeNote ms w1 of
             ((cs, es'), w2) \<Rightarrow> ((c @ cs, es @ es'), w2)))"

definition extractVariablesFromPromptHost ::
  "'w hostUtils \<Rightarrow> string \<Rightarrow> string option \<Rightarrow> 'w \<Rightarrow> (string list \<times> effect list) \<times> 'w" where
  "extractVariablesFromPromptHost h customPrompt activeNote w =
     (case variableLoopHost h activeNote (scanVariables customPrompt) w of
        ((variablesWithContent, es), w1) \<Rightarrow>
          ((variablesWithContent,
            ConsoleLog (''*** EXTRACT VARIABLES FROM PROMPT ***\<newline>prompt: '' @ customPrompt) # es),
           w1))"

definition selectionPlaceholderHost ::
  "'w hostUtils \<Rightarrow> string \<Rightarrow> string \<Rightarrow> string option \<Rightarrow> 'w
     \<Rightarrow> (string \<times> string \<times> string option) \<times> 'w" where
  "selectionPlaceholderHost h customPrompt selectedText activeNote w =
     (if includesStr customPrompt ''{}'' then
        (if selectedText \<noteq> [] then
           ((replaceEmptyBraces customPrompt, ''selectedText:\<newline>\<newline> '' @ selectedText, None), w)
         else
           (case activeNote of
              Some f \<Rightarrow>
                (case runGetFileContent h f None w of
                   (activeNoteContent, w1) \<Rightarrow>
                     ((replaceEmptyBraces customPrompt,
                       ''selectedText (entire active note):\<newline>\<newline> '' @ strOf activeNoteContent,
                       activeNoteContent), w1))
            | None \<Rightarrow>
                ((replaceEmptyBraces customPrompt,
                  ''selectedText:\<newline>\<newline> (No selected text or active note available)'',
                  None), w)))
      else ((customPrompt, [], None), w))"

definition resolveNoteTitleHost ::
  "'w hostUtils \<Rightarrow> string \<Rightarrow> string \<times> string option \<times> effect list \<Rightarrow> 'w
     \<Rightarrow> (string \<times> string option \<times> effect list) \<times> 'w" where
  "resolveNoteTitleHost h noteTitle s w =
     (case s of (additionalInfo, noteHeading0, es) \<Rightarrow>
        (let (parsedNoteTitle, noteHeading) = parseNoteTitle noteTitle noteHeading0;
             es1 = es @ [ConsoleLog (''note title passed to getNoteFileFromTitle: '' @ parsedNoteTitle),
                         ConsoleLog (''note heading: '' @ headingLog noteHeading)]
         in case runGetNoteFileFromTitle h parsedNoteTitle w of
              (Some noteFile, w1) \<Rightarrow>
                (case runGetFileContent h noteFile noteHeading w1 of
                   (noteContent, w2) \<Rightarrow>
                     ((additionalInfo @ ''\<newline>\<newline>[['' @ noteTitle @ '']]:\<newline>\<newline>'' @ strOf noteContent,
                       noteHeading,
                       es1 @ [ConsoleLog (''getting note content for:  '' @ parsedNoteTitle),
                              ConsoleLog (''note content returned:\<newline> '' @ strOf noteContent)]),
                      w2))
            | (None, w1) \<Rightarrow> ((additionalInfo, noteHeading, es1), w1)))"

fun processNoteTitlesHost ::
  "'w hostUtils \<Rightarrow> string list \<Rightarrow> string list \<Rightarrow> string \<times> string option \<times> effect list \<Rightarrow> 'w
     \<Rightarrow> (string \<times> string option \<times> effect list) \<times> 'w" where
  "processNoteTitlesHost h matches [] s w = (s, w)"
| "processNoteTitlesHost h matches (noteTitle # noteTitles) s w =
     (if \<not> alreadyProcessed matches noteTitle then
        (case resolveNoteTitleHost h noteTitle s w of
           (s1, w1) \<Rightarrow> processNoteTitlesHost h matches noteTitles s1 w1)
      else processNoteTitlesHost h matches noteTitles s w)"

definition processCustomPromptHost ::
  "'w hostUtils \<Rightarrow> string \<Rightarrow> string \<Rightarrow> string option \<Rightarrow> 'w \<Rightarrow> (string \<times> effect list) \<times> 'w" where
  "processCustomPromptHost h customPrompt selectedText activeNote w =
     (case extractVariablesFromPromptHost h customPrompt activeNote w of
        ((variablesWithContent, es1), w1) \<Rightarrow>
          (case selectionPlaceholderHost h customPrompt selectedText activeNote w1 of
             ((processedPrompt, additionalInfo0, activeNoteContent), w2) \<Rightarrow>
               (case runExtractNoteTitles h processedPrompt w2 of
                  (noteTitles, w3) \<Rightarrow>
                    (case processNoteTitlesHost h (scanVariables customPrompt) noteTitles
                            (appendVariables (scanVariables customPrompt) variablesWithContent
                               activeNoteContent additionalInfo0, None, []) w3 of
                       ((additionalInfo, noteHeading, es2), w4) \<Rightarrow>
                         ((processedPrompt @ ''\<newline>\<newline>'' @ additionalInfo,
                           ConsoleLog ''*** PROCESS CUSTOM PROMPT ***'' # es1
                           @ ConsoleLog (''extract note titles from processed prompt: '' @ processedPrompt)
                           # es2),
                          w4)))))"

text \<open>Helpers that change nothing, made from helpers given as functions of the vault:
  the host state is the vault.\<close>

definition hostOf :: "utils \<Rightarrow> vault hostUtils" where
  "hostOf u =
     \<lparr>runExtractNoteTitles = (\<lambda>s w. (extractNoteTitles u s, w)),
      runGetFileContent = (\<lambda>f heading w. (getFileContent u f w heading, w)),
      runGetFileName = (\<lambda>f w. (getFileName u f, w)),
      runGetNoteFileFromTitle = (\<lambda>title w. (getNoteFileFromTitle u w title, w)),
      runGetNotesFromPath = (\<lambda>path w. (getNotesFromPath u w path, w)),
      runGetNotesFromTags = (\<lambda>tags w. (getNotesFromTags u w tags, w)),
      runProcessVariableNameForNotePath = (\<lambda>name w. (processVariableNameForNotePath u name, w))\<rparr>"


text \<open>Helpers that do not answer from a repository: every read of a content counts up
  the host state, a number, and returns as many characters.\<close>

definition countingHost :: "nat hostUtils" where
  "countingHost =
     \<lparr>runExtractNoteTitles = (\<lambda>s w. ([], w)),
      runGetFileContent = (\<lambda>f heading w. (Some (replicate (Suc w) CHR ''x''), Suc w)),
      runGetFileName = (\<lambda>f w. (f, w)),
      runGetNoteFileFromTitle = (\<lambda>title w. (None, w)),
      runGetNotesFromPath = (\<lambda>path w. ([], w)),
      runGetNotesFromTags = (\<lambda>tags w. ([], w)),
      runProcessVariableNameForNotePath = (\<lambda>name w. (name, w))\<rparr>"

section \<open>updatePrompt\<close>

datatype error = CustomError string

definition promptPath :: "processor \<Rightarrow> string \<Rightarrow> string" where
  "promptPath p title = customPromptsFolder p @ ''/'' @ title @ ''.md''"

text \<open>The three calls of the host application's \<^verbatim>\<open>Vault\<close> that \<^verbatim>\<open>updatePrompt\<close> makes.
  After \<^verbatim>\<open>rename\<close> the handle names the file at its new path.\<close>

definition getAbstractFileByPath :: "vault \<Rightarrow> string \<Rightarrow> entry option" where
  "getAbstractFileByPath v path = map_of v path"

definition renameFile :: "vault \<Rightarrow> string \<Rightarrow> string \<Rightarrow> vault" where
  "renameFile v path newPath = map (\<lambda>(q, e). if q = path then (newPath, e) else (q, e)) v"

definition modifyFile :: "vault \<Rightarrow> string \<Rightarrow> string \<Rightarrow> vault" where
  "modifyFile v path content = map (\<lambda>(q, e). if q = path then (q, File content) else (q, e)) v"

text \<open>Modelled from the spec: \<^verbatim>\<open>PromptUsageStrategy.updateUsage\<close> is declared outside the
  sources at hand; section 4.4 has the update "updating usage-record key", so the
  record of the old title moves to the new title.\<close>

definition updateUsage :: "string \<Rightarrow> string \<Rightarrow> (string \<times> nat) list \<Rightarrow> (string \<times> nat) list" where
  "updateUsage originTitle newTitle usage =
     map (\<lambda>(t, stamp). if t = originTitle then (newTitle, stamp) else (t, stamp)) usage"

text \<open>The result is the exception thrown, if any, and the processor as the call leaves
  it: a throw undoes nothing that was written before it. The only exception modelled is
  the \<^verbatim>\<open>CustomError\<close> that \<^verbatim>\<open>updatePrompt\<close> throws itself; the calls of the host are
  taken to succeed.\<close>

definition duplicateTitleError :: error where
  "duplicateTitleError =
     CustomError ''Error saving custom prompt. Please check if the title already exists.''"

definition updatePrompt ::
  "processor \<Rightarrow> string \<Rightarrow> string \<Rightarrow> string \<Rightarrow> error option \<times> processor" where
  "updatePrompt p originTitle newTitle content =
     (case getAbstractFileByPath (vault p) (promptPath p originTitle) of
        Some (File old) \<Rightarrow>
          (if originTitle \<noteq> newTitle then
             (if getAbstractFileByPath (vault p) (promptPath p newTitle) \<noteq> None
              then (Some duplicateTitleError, p)
              else (None,
                    p\<lparr>usageStrategy := map_option (updateUsage originTitle newTitle) (usageStrategy p),
                      vault := modifyFile
                                 (renameFile (vault p) (promptPath p originTitle) (promptPath p newTitle))
                                 (promptPath p newTitle) content\<rparr>))
           else (None, p\<lparr>vault := modifyFile (vault p) (promptPath p originTitle) content\<rparr>))
      | Some Folder \<Rightarrow> (None, p)
      | None \<Rightarrow> (None, p))"

section \<open>A reference implementation of the helpers, and a small vault\<close>

text \<open>
  The theorems below hold for every implementation of the helpers. To run the processor
  on concrete inputs, this section supplies one implementation, written from the
  specification's description of each helper.
\<close>

text \<open>Modelled from the spec: \<^verbatim>\<open>extractNoteTitles\<close> of \<^verbatim>\<open>@/utils\<close> is missing; section 4.2
  has "Extract all \<^verbatim>\<open>[[...]]\<close> spans". The first argument is the title being read, in
  reverse, while the scan is inside a span.\<close>

fun noteTitleSpans :: "string option \<Rightarrow> string \<Rightarrow> string list" where
  "noteTitleSpans None (a # b # cs) =
     (if a = CHR ''['' \<and> b = CHR ''['' then noteTitleSpans (Some []) cs
      else noteTitleSpans None (b # cs))"
| "noteTitleSpans (Some acc) (a # b # cs) =
     (if a = CHR '']'' \<and> b = CHR '']'' then rev acc # noteTitleSpans None cs
      else noteTitleSpans (Some (a # acc)) (b # cs))"
| "noteTitleSpans st cs = []"

text \<open>Modelled from the spec: \<^verbatim>\<open>extractNoteTitles\<close> (missing), section 4.2: the spans of
  the whole string, in the order of the scan.\<close>

definition refExtractNoteTitles :: "string \<Rightarrow> string list" where
  "refExtractNoteTitles s = noteTitleSpans None s"

text \<open>Modelled from the spec: \<^verbatim>\<open>getFileContent\<close> of \<^verbatim>\<open>@/utils\<close> is missing; section 4.2
  has "full content if no heading, else only the section whose heading text matches
  (the section starting at the first heading line whose text equals the target,
  extending to the next heading of equal-or-higher level, exclusive)". First, the level
  of a heading line (one to six \<^verbatim>\<open>#\<close> and a space), 0 for any other line.\<close>

definition headingLevel :: "string \<Rightarrow> nat" where
  "headingLevel l =
     (let n = length (takeWhile (\<lambda>c. c = CHR ''#'') l)
      in if 1 \<le> n \<and> n \<le> 6 \<and> startsWith (drop n l) '' '' then n else 0)"

text \<open>Modelled from the spec: part of \<^verbatim>\<open>getFileContent\<close> (missing), section 4.2: the
  "heading text" of a heading line.\<close>

definition headingText :: "string \<Rightarrow> string" where
  "headingText l = trim (dropWhile (\<lambda>c. c = CHR ''#'') l)"

text \<open>Modelled from the spec: part of \<^verbatim>\<open>getFileContent\<close> (missing), section 4.2: the
  lines up to "the next heading of equal-or-higher level, exclusive".\<close>

fun sectionBody :: "nat \<Rightarrow> string list \<Rightarrow> string list" where
  "sectionBody n [] = []"
| "sectionBody n (l # ls) =
     (if 0 < headingLevel l \<and> headingLevel l \<le> n then [] else l # sectionBody n ls)"

text \<open>Modelled from the spec: part of \<^verbatim>\<open>getFileContent\<close> (missing), section 4.2: "the
  section starting at the first heading line whose text equals the target".\<close>

fun findSection :: "string \<Rightarrow> string list \<Rightarrow> string list option" where
  "findSection h [] = None"
| "findSection h (l # ls) =
     (if 0 < headingLevel l \<and> headingText l = h then Some (l # sectionBody (headingLevel l) ls)
      else findSection h ls)"

text \<open>Modelled from the spec: \<^verbatim>\<open>getFileContent\<close> (missing), section 4.2: "full content
  if no heading, else only the section whose heading text matches". A path that holds
  no file, and a heading that no line carries, give \<^verbatim>\<open>null\<close>.\<close>

definition refGetFileContent :: "string \<Rightarrow> vault \<Rightarrow> string option \<Rightarrow> string option" where
  "refGetFileContent f v heading =
     (case map_of v f of
        Some (File content) \<Rightarrow>
          (case heading of
             None \<Rightarrow> Some content
           | Some h \<Rightarrow> map_option (join ''\<newline>'') (findSection h (split CHR 0x0A content)))
      | Some Folder \<Rightarrow> None
      | None \<Rightarrow> None)"

text \<open>Modelled from the spec: \<^verbatim>\<open>getFileName\<close> of \<^verbatim>\<open>@/utils\<close> is missing; section 4.1
  calls it "the note's display name": the last segment of the path without its
  extension.\<close>

definition refGetFileName :: "string \<Rightarrow> string" where
  "refGetFileName f =
     (let segment = last (split CHR ''/'' f); parts = split CHR ''.'' segment
      in if 1 < length parts then join ''.'' (butlast parts) else segment)"

text \<open>Modelled from the spec: the listing of the vault's files that the helpers of
  \<^verbatim>\<open>@/utils\<close> (missing) search, section 6 (\<^verbatim>\<open>listFiles\<close>): the paths that hold a
  file, in listing order.\<close>

definition filesOf :: "vault \<Rightarrow> string list" where
  "filesOf v = map fst (filter (\<lambda>(q, e). e \<noteq> Folder) v)"

text \<open>Modelled from the spec: \<^verbatim>\<open>getNoteFileFromTitle\<close> of \<^verbatim>\<open>@/utils\<close> is missing;
  section 4.2 has "resolve title to a file by exact/display-name match".\<close>

definition refGetNoteFileFromTitle :: "vault \<Rightarrow> string \<Rightarrow> string option" where
  "refGetNoteFileFromTitle v title = List.find (\<lambda>f. refGetFileName f = title) (filesOf v)"

text \<open>Modelled from the spec: \<^verbatim>\<open>processVariableNameForNotePath\<close> and \<^verbatim>\<open>getNotesFromPath\<close>
  of \<^verbatim>\<open>@/utils\<close> are missing; section 4.1 has "treat as a path pattern (after
  normalization); fetch all notes whose path matches". Here the normalization removes
  the double brackets around a note title, and a path matches a pattern that is the
  path itself, the path without \<^verbatim>\<open>.md\<close>, the note's display name or a folder above it.\<close>

definition refProcessVariableNameForNotePath :: "string \<Rightarrow> string" where
  "refProcessVariableNameForNotePath variableName =
     (let s = trim variableName
      in if startsWith s ''[['' \<and> startsWith (rev s) '']]''
         then trim (drop 2 (rev (drop 2 (rev s)))) else s)"

text \<open>Modelled from the spec: \<^verbatim>\<open>getNotesFromPath\<close> (missing), section 4.1: "fetch all
  notes whose path matches".\<close>

definition refGetNotesFromPath :: "vault \<Rightarrow> string \<Rightarrow> string list" where
  "refGetNotesFromPath v pattern =
     filter (\<lambda>f. f = pattern \<or> f = pattern @ ''.md'' \<or> refGetFileName f = pattern
                  \<or> startsWith f (pattern @ ''/'')) (filesOf v)"

text \<open>Modelled from the spec: \<^verbatim>\<open>getNotesFromTags\<close> of \<^verbatim>\<open>@/utils\<close> is missing; section 4.1
  has "fetch all notes carrying any of these tags". Here a note carries a tag when its
  content holds the tag behind a \<^verbatim>\<open>#\<close>.\<close>

definition refGetNotesFromTags :: "vault \<Rightarrow> string list \<Rightarrow> string list" where
  "refGetNotesFromTags v tagNames =
     filter (\<lambda>f. list_ex (\<lambda>t. includesStr (strOf (refGetFileContent f v None))
                                   (CHR ''#'' # dropWhile (\<lambda>c. c = CHR ''#'') t)) tagNames)
       (filesOf v)"

text \<open>Modelled from the spec: the helpers of \<^verbatim>\<open>@/utils\<close> (missing), as one record.\<close>

definition refUtils :: utils where
  "refUtils =
     \<lparr>extractNoteTitles = refExtractNoteTitles,
      getFileContent = refGetFileContent,
      getFileName = refGetFileName,
      getNoteFileFromTitle = refGetNoteFileFromTitle,
      getNotesFromPath = refGetNotesFromPath,
      getNotesFromTags = refGetNotesFromTags,
      processVariableNameForNotePath = refProcessVariableNameForNotePath\<rparr>"

text \<open>A vault with four notes, one of them empty, and a folder of two stored prompts.\<close>

definition demoVault :: vault where
  "demoVault =
     [(''Notes'', Folder),
      (''Notes/A.md'', File ''# A\<newline>alpha\<newline>## Intro\<newline>intro of A\<newline>## Other\<newline>other text''),
      (''Notes/B.md'', File ''bravo\<newline>## Intro\<newline>intro of B\<newline>## Rest\<newline>rest of B #t1''),
      (''Notes/Empty.md'', File []),
      (''Journal'', Folder),
      (''Journal/Today.md'', File ''today I wrote''),
      (''prompts'', Folder),
      (''prompts/P.md'', File ''Summarize {}''),
      (''prompts/Q.md'', File ''Translate {}'')]"

definition demoProcessor :: processor where
  "demoProcessor =
     \<lparr>vault = demoVault, customPromptsFolder = ''prompts'',
      usageStrategy = Some [(''P'', 10), (''Q'', 20)], effects = []\<rparr>"

section \<open>Notions used to state the claims\<close>

text \<open>
  The files a variable matches, before their contents are read: the active note for
  \<^verbatim>\<open>activeNote\<close>, the notes found by tag or by path otherwise. These are the three
  lists that the branches of \<open>variableNotes\<close> walk. \<open>nonEmptyMatches\<close> keeps the matched
  files whose content is neither \<^verbatim>\<open>null\<close> nor the empty string, for the capture group
  \<open>m\<close> of a match.
\<close>

definition matchedFiles :: "utils \<Rightarrow> vault \<Rightarrow> string option \<Rightarrow> string \<Rightarrow> string list" where
  "matchedFiles u v activeNote variableName =
     (if toLowerCase variableName = ''activenote'' then
        (case activeNote of Some f \<Rightarrow> [f] | None \<Rightarrow> [])
      else if startsWith variableName ''#'' then
        getNotesFromTags u v (map trim (split CHR '','' (drop 1 variableName)))
      else getNotesFromPath u v (processVariableNameForNotePath u variableName))"

definition nonEmptyMatches :: "utils \<Rightarrow> vault \<Rightarrow> string option \<Rightarrow> string \<Rightarrow> string list" where
  "nonEmptyMatches u v activeNote m =
     filter (\<lambda>f. truthy (getFileContent u f v None)) (matchedFiles u v activeNote (trim m))"

text \<open>The effects a user sees.\<close>

fun isNotice :: "effect \<Rightarrow> bool" where
  "isNotice (Notice s) = True"
| "isNotice (ConsoleLog s) = False"

section \<open>Facts about the string functions\<close>

lemma startsWith_iff: "startsWith s sub \<longleftrightarrow> (\<exists>suf. s = sub @ suf)"
  by (induction s sub rule: startsWith.induct) auto

lemma includesStr_iff: "includesStr s sub \<longleftrightarrow> (\<exists>pre suf. s = pre @ sub @ suf)"
proof (induction s)
  case Nil
  then show ?case by auto
next
  case (Cons x xs)
  show ?case
  proof
    assume "includesStr (x # xs) sub"
    then consider "startsWith (x # xs) sub" | "includesStr xs sub" by auto
    then show "\<exists>pre suf. x # xs = pre @ sub @ suf"
    proof cases
      case 1
      then obtain suf where "x # xs = sub @ suf" by (auto simp: startsWith_iff)
      then have "x # xs = [] @ sub @ suf" by simp
      then show ?thesis by blast
    next
      case 2
      then obtain pre suf where "xs = pre @ sub @ suf" using Cons.IH by auto
      then have "x # xs = (x # pre) @ sub @ suf" by simp
      then show ?thesis by blast
    qed
  next
    assume "\<exists>pre suf. x # xs = pre @ sub @ suf"
    then obtain pre suf where e: "x # xs = pre @ sub @ suf" by auto
    show "includesStr (x # xs) sub"
    proof (cases pre)
      case Nil
      then have "startsWith (x # xs) sub" using e by (auto simp: startsWith_iff)
      then show ?thesis by simp
    next
      case (Cons y ys)
      then have "xs = ys @ sub @ suf" using e by simp
      then have "includesStr xs sub" using Cons.IH by blast
      then show ?thesis by simp
    qed
  qed
qed

text \<open>What the scan of the variable expression returns: nothing without an opening
  brace; otherwise captures that are not empty, hold no closing brace, and stand in the
  template between an opening and a closing brace.\<close>

lemma scanVariables_no_brace: "CHR ''{'' \<notin> set t \<Longrightarrow> scanVariables t = []"
  by (induction t rule: scanVariables.induct) auto

lemma includesStr_append_left: "includesStr ys sub \<Longrightarrow> includesStr (xs @ ys) sub"
  by (auto simp: includesStr_iff) (metis append.assoc)

lemma scanVariables_sound:
  "m \<in> set (scanVariables t) \<Longrightarrow>
   m \<noteq> [] \<and> CHR ''}'' \<notin> set m \<and> includesStr t (''{'' @ m @ ''}'')"
proof (induction t rule: scanVariables.induct)
  case 1
  then show ?case by simp
next
  case (2 c cs)
  let ?inner = "takeWhile (\<lambda>x. x \<noteq> CHR ''}'') cs"
  let ?rest = "dropWhile (\<lambda>x. x \<noteq> CHR ''}'') cs"
  show ?case
  proof (cases "c = CHR ''{'' \<and> ?inner \<noteq> [] \<and> ?rest \<noteq> []")
    case True
    then have sv: "scanVariables (c # cs) = ?inner # scanVariables (tl ?rest)" by simp
    from True have hd: "hd ?rest = CHR ''}''" using hd_dropWhile [of "\<lambda>x. x \<noteq> CHR ''}''" cs] by auto
    have cs: "cs = ?inner @ CHR ''}'' # tl ?rest"
      using True hd by (metis takeWhile_dropWhile_id list.collapse)
    show ?thesis
    proof (cases "m = ?inner")
      case True
      have "CHR ''}'' \<notin> set ?inner" by (auto dest: set_takeWhileD)
      moreover have "c # cs = [] @ (''{'' @ ?inner @ ''}'') @ tl ?rest"
        using cs \<open>c = CHR ''{'' \<and> ?inner \<noteq> [] \<and> ?rest \<noteq> []\<close> by simp
      then have "includesStr (c # cs) (''{'' @ ?inner @ ''}'')"
        unfolding includesStr_iff by blast
      ultimately show ?thesis using True \<open>c = CHR ''{'' \<and> ?inner \<noteq> [] \<and> ?rest \<noteq> []\<close> by simp
    next
      case False
      with "2.prems" sv have "m \<in> set (scanVariables (tl ?rest))" by simp
      with "2.IH"(1) True have ih: "m \<noteq> [] \<and> CHR ''}'' \<notin> set m \<and> includesStr (tl ?rest) (''{'' @ m @ ''}'')"
        by simp
      then have "includesStr ((c # ?inner @ [CHR ''}'']) @ tl ?rest) (''{'' @ m @ ''}'')"
        by (intro includesStr_append_left) simp
      then have "includesStr (c # cs) (''{'' @ m @ ''}'')" using cs by simp
      with ih show ?thesis by simp
    qed
  next
    case False
    then have "scanVariables (c # cs) = scanVariables cs" by auto
    with "2.prems" "2.IH"(2) False have "m \<noteq> [] \<and> CHR ''}'' \<notin> set m \<and> includesStr cs (''{'' @ m @ ''}'')"
      by auto
    then show ?thesis by simp
  qed
qed

section \<open>The shape of an expansion\<close>

lemma vault_emit: "vault (emit es p) = vault p"
  by (simp add: emit_def)

lemma effects_emit: "effects (emit es p) = effects p @ es"
  by (simp add: emit_def)

lemma emit_emit: "emit es' (emit es p) = emit (es @ es') p"
  by (simp add: emit_def)

lemma extractVariables_eq:
  "extractVariablesFromPrompt u p t an =
     (fst (variableLoop u (vault p) an (scanVariables t)),
      emit (ConsoleLog (''*** EXTRACT VARIABLES FROM PROMPT ***\<newline>prompt: '' @ t)
              # snd (variableLoop u (vault p) an (scanVariables t))) p)"
  by (simp add: extractVariablesFromPrompt_def Let_def vault_emit emit_emit split: prod.splits)

text \<open>The string that \<open>processCustomPrompt\<close> returns is a function of the vault and of
  the arguments alone, and the call leaves the vault as it found it.\<close>

lemma processCustomPrompt_fst:
  "fst (processCustomPrompt u p t sel an) =
     (case selectionPlaceholder u (vault p) t sel an of
        (processedPrompt, additionalInfo0, activeNoteContent) \<Rightarrow>
          processedPrompt @ ''\<newline>\<newline>'' @
          fst (processNoteTitles u (vault p) (scanVariables t) (extractNoteTitles u processedPrompt)
                 (appendVariables (scanVariables t)
                    (fst (variableLoop u (vault p) an (scanVariables t)))
                    activeNoteContent additionalInfo0)))"
  by (simp add: processCustomPrompt_def extractVariables_eq Let_def vault_emit case_prod_beta)

lemma processCustomPrompt_vault:
  "vault (snd (processCustomPrompt u p t sel an)) = vault p"
  by (simp add: processCustomPrompt_def extractVariables_eq Let_def vault_emit case_prod_beta)

section \<open>Plain templates\<close>

text \<open>
  Claim C9 (plain-template baseline). A template in which the variable expression
  matches nothing, which does not contain the two characters \<^verbatim>\<open>{}\<close>, and from which
  the title extractor returns no \<^verbatim>\<open>[[...]]\<close> span, is returned unchanged and followed
  by the separator of two line feeds: the additional info is empty, whatever the
  selected text and the active note are.
\<close>

theorem plain_template_baseline:
  assumes "scanVariables t = []"
    and "\<not> includesStr t ''{}''"
    and "extractNoteTitles u t = []"
  shows "fst (processCustomPrompt u p t selectedText activeNote) = t @ ''\<newline>\<newline>''"
  using assms by (simp add: processCustomPrompt_fst selectionPlaceholder_def processNoteTitles_def)

theorem plain_template_baseline_witness:
  "scanVariables ''Summarize this.'' = []
   \<and> \<not> includesStr ''Summarize this.'' ''{}''
   \<and> extractNoteTitles refUtils ''Summarize this.'' = []
   \<and> fst (processCustomPrompt refUtils demoProcessor ''Summarize this.'' ''some text''
            (Some ''Notes/B.md''))
       = ''Summarize this.\<newline>\<newline>''"
proof -
  have h1: "scanVariables ''Summarize this.'' = []" by simp
  have h2: "\<not> includesStr ''Summarize this.'' ''{}''" by simp
  have h3: "extractNoteTitles refUtils ''Summarize this.'' = []"
    by (simp add: refUtils_def refExtractNoteTitles_def)
  show ?thesis
    using h1 h2 h3
      plain_template_baseline [OF h1 h2 h3, of demoProcessor "''some text''" "Some ''Notes/B.md''"]
    by simp
qed

section \<open>Note links\<close>

lemma alreadyProcessed_iff:
  "alreadyProcessed ms n \<longleftrightarrow> (\<exists>m\<in>set ms. \<exists>pre suf. m = pre @ ''[['' @ n @ '']]'' @ suf)"
  by (simp add: alreadyProcessed_def list_ex_iff includesStr_iff)

lemma fold_noteTitleStep:
  "fold (noteTitleStep u v ms) ns s
   = fold (resolveNoteTitle u v) (filter (\<lambda>n. \<not> alreadyProcessed ms n) ns) s"
  by (induction ns arbitrary: s) (simp_all add: noteTitleStep_def)

lemma variableLoop_concat:
  "variableLoop u v an ms
   = (concat (map (\<lambda>m. fst (variableStep u v an m)) ms),
      concat (map (\<lambda>m. snd (variableStep u v an m)) ms))"
  by (induction ms) (simp_all add: Let_def case_prod_beta)

lemma processCustomPrompt_effects:
  "effects (snd (processCustomPrompt u p t sel an)) =
     effects p @ ConsoleLog ''*** PROCESS CUSTOM PROMPT ***''
       # ConsoleLog (''*** EXTRACT VARIABLES FROM PROMPT ***\<newline>prompt: '' @ t)
       # snd (variableLoop u (vault p) an (scanVariables t))
       @ ConsoleLog (''extract note titles from processed prompt: ''
                      @ fst (selectionPlaceholder u (vault p) t sel an))
       # snd (snd (processNoteTitles u (vault p) (scanVariables t)
                     (extractNoteTitles u (fst (selectionPlaceholder u (vault p) t sel an)))
                     (appendVariables (scanVariables t)
                        (fst (variableLoop u (vault p) an (scanVariables t)))
                        (snd (snd (selectionPlaceholder u (vault p) t sel an)))
                        (fst (snd (selectionPlaceholder u (vault p) t sel an))))))"
  by (simp add: processCustomPrompt_def extractVariables_eq Let_def vault_emit effects_emit
        case_prod_beta)

lemma notesOfFiles_filter:
  "notesOfFiles u v fs
   = map (\<lambda>f. (getFileName u f, strOf (getFileContent u f v None)))
       (filter (\<lambda>f. truthy (getFileContent u f v None)) fs)"
  by (induction fs) simp_all

lemma variableNotes_matched:
  "fst (variableNotes u v an x) = notesOfFiles u v (matchedFiles u v an x)"
  by (simp add: variableNotes_def matchedFiles_def Let_def split: option.splits)

lemma variableNotes_nonEmptyMatches:
  "fst (variableNotes u v an (trim m))
   = map (\<lambda>f. (getFileName u f, strOf (getFileContent u f v None))) (nonEmptyMatches u v an m)"
  by (simp add: variableNotes_matched notesOfFiles_filter nonEmptyMatches_def)

lemma unresolved_variable_warns:
  assumes "m \<in> set (scanVariables t)" and "nonEmptyMatches u (vault p) an m = []"
  shows "noNotesWarning (trim m)
         \<in> set (drop (length (effects p)) (effects (snd (processCustomPrompt u p t sel an))))"
proof -
  have "noNotesWarning (trim m) \<in> set (snd (variableStep u (vault p) an m))"
    using assms(2) variableNotes_nonEmptyMatches [of u "vault p" an m]
    by (simp add: variableStep_def Let_def case_prod_beta)
  with assms(1) have "noNotesWarning (trim m) \<in> set (snd (variableLoop u (vault p) an (scanVariables t)))"
    by (auto simp: variableLoop_concat)
  then show ?thesis by (simp add: processCustomPrompt_effects)
qed

text \<open>
  Claim C6, as stated (for every template that consists of a note link whose title
  resolves to no file, the template comes back with the separator only and no
  notification is shown), fails for a title that holds variable syntax. The variable
  expression is run over the whole template: for \<^verbatim>\<open>[[Plan {draft}]]\<close> the call shows the
  warning that no notes were found for \<^verbatim>\<open>draft\<close>, and for \<^verbatim>\<open>[[Plan {}]]\<close> it rewrites
  the body and appends a block.
\<close>

theorem missing_note_link_counterexample:
  "extractNoteTitles refUtils ''[[Plan {draft}]]'' = [''Plan {draft}'']
   \<and> getNoteFileFromTitle refUtils (vault demoProcessor) ''Plan {draft}'' = None
   \<and> effects demoProcessor = []
   \<and> noNotesWarning ''draft''
       \<in> set (effects (snd (processCustomPrompt refUtils demoProcessor ''[[Plan {draft}]]'' [] None)))
   \<and> extractNoteTitles refUtils ''[[Plan {}]]'' = [''Plan {}'']
   \<and> getNoteFileFromTitle refUtils (vault demoProcessor) ''Plan {}'' = None
   \<and> fst (processCustomPrompt refUtils demoProcessor ''[[Plan {}]]'' [] None)
       = ''[[Plan {selectedText}]]\<newline>\<newline>selectedText:\<newline>\<newline> (No selected text or active note available)''
   \<and> fst (processCustomPrompt refUtils demoProcessor ''[[Plan {}]]'' [] None)
       \<noteq> ''[[Plan {}]]\<newline>\<newline>''"
  by code_simp

text \<open>
  Claim C6, amended (a missing note link is soft and silent). For a template with no
  variable match and no \<^verbatim>\<open>{}\<close>, whose only note link has a title that resolves to no
  file, \<open>processCustomPrompt\<close> returns the template followed by the separator and nothing
  else, and all it emits are five console lines: no notification. A variable is treated
  differently: whenever a matched \<^verbatim>\<open>{...}\<close> span has no note with content, the
  warning notification for it is among the effects that the call adds.
\<close>

theorem missing_note_link_is_silent:
  "(scanVariables t = [] \<and> \<not> includesStr t ''{}'' \<and> extractNoteTitles u t = [noteTitle]
    \<and> getNoteFileFromTitle u (vault p) (fst (parseNoteTitle noteTitle None)) = None
    \<longrightarrow> processCustomPrompt u p t selectedText activeNote =
          (t @ ''\<newline>\<newline>'',
           emit [ConsoleLog ''*** PROCESS CUSTOM PROMPT ***'',
                 ConsoleLog (''*** EXTRACT VARIABLES FROM PROMPT ***\<newline>prompt: '' @ t),
                 ConsoleLog (''extract note titles from processed prompt: '' @ t),
                 ConsoleLog (''note title passed to getNoteFileFromTitle: ''
                             @ fst (parseNoteTitle noteTitle None)),
                 ConsoleLog (''note heading: '' @ headingLog (snd (parseNoteTitle noteTitle None)))] p))
   \<and> (m \<in> set (scanVariables t') \<and> nonEmptyMatches u (vault p) activeNote m = []
      \<longrightarrow> noNotesWarning (trim m)
            \<in> set (drop (length (effects p))
                       (effects (snd (processCustomPrompt u p t' selectedText activeNote)))))"
proof (intro conjI impI)
  assume "scanVariables t = [] \<and> \<not> includesStr t ''{}'' \<and> extractNoteTitles u t = [noteTitle]
    \<and> getNoteFileFromTitle u (vault p) (fst (parseNoteTitle noteTitle None)) = None"
  then show "processCustomPrompt u p t selectedText activeNote =
          (t @ ''\<newline>\<newline>'',
           emit [ConsoleLog ''*** PROCESS CUSTOM PROMPT ***'',
                 ConsoleLog (''*** EXTRACT VARIABLES FROM PROMPT ***\<newline>prompt: '' @ t),
                 ConsoleLog (''extract note titles from processed prompt: '' @ t),
                 ConsoleLog (''note title passed to getNoteFileFromTitle: ''
                             @ fst (parseNoteTitle noteTitle None)),
                 ConsoleLog (''note heading: '' @ headingLog (snd (parseNoteTitle noteTitle None)))] p)"
    by (simp add: processCustomPrompt_def extractVariables_eq Let_def emit_def
          selectionPlaceholder_def processNoteTitles_def noteTitleStep_def alreadyProcessed_def
          resolveNoteTitle_def case_prod_beta)
next
  assume "m \<in> set (scanVariables t') \<and> nonEmptyMatches u (vault p) activeNote m = []"
  then show "noNotesWarning (trim m)
            \<in> set (drop (length (effects p))
                       (effects (snd (processCustomPrompt u p t' selectedText activeNote))))"
    by (simp add: unresolved_variable_warns)
qed

theorem missing_note_link_is_silent_witness:
  "processCustomPrompt refUtils demoProcessor ''[[Missing Note]]'' [] None =
     (''[[Missing Note]]\<newline>\<newline>'',
      emit [ConsoleLog ''*** PROCESS CUSTOM PROMPT ***'',
            ConsoleLog ''*** EXTRACT VARIABLES FROM PROMPT ***\<newline>prompt: [[Missing Note]]'',
            ConsoleLog ''extract note titles from processed prompt: [[Missing Note]]'',
            ConsoleLog ''note title passed to getNoteFileFromTitle: Missing Note'',
            ConsoleLog ''note heading: undefined''] demoProcessor)
   \<and> noNotesWarning ''Nowhere''
       \<in> set (drop (length (effects demoProcessor))
                  (effects (snd (processCustomPrompt refUtils demoProcessor ''{Nowhere}'' [] None))))"
proof -
  have h1: "scanVariables ''[[Missing Note]]'' = []" by simp
  have h2: "\<not> includesStr ''[[Missing Note]]'' ''{}''" by simp
  have h3: "extractNoteTitles refUtils ''[[Missing Note]]'' = [''Missing Note'']"
    by (simp add: refUtils_def refExtractNoteTitles_def)
  have h4: "parseNoteTitle ''Missing Note'' None = (''Missing Note'', None)"
    by (simp add: parseNoteTitle_def)
  have h5: "getNoteFileFromTitle refUtils (vault demoProcessor) ''Missing Note'' = None"
    by code_simp
  have g1: "''Nowhere'' \<in> set (scanVariables ''{Nowhere}'')" by simp
  have g2: "nonEmptyMatches refUtils (vault demoProcessor) None ''Nowhere'' = []"
    by code_simp
  have t: "trim ''Nowhere'' = ''Nowhere''" by (simp add: trim_def isSpace_def)
  show ?thesis
    using missing_note_link_is_silent [of "''[[Missing Note]]''" refUtils "''Missing Note''"
        demoProcessor "[]" None "''Nowhere''" "''{Nowhere}''"]
      h1 h2 h3 h4 h5 g1 g2 t
    by (simp add: headingLog_def)
qed

section \<open>The selection placeholder\<close>

text \<open>Both loops of \<open>processCustomPrompt\<close> only append to the additional info.\<close>

lemma appendVariables_append:
  "appendVariables ms cs anc info = info @ appendVariables ms cs anc []"
proof (induction cs arbitrary: ms info)
  case Nil
  then show ?case by simp
next
  case (Cons c cs)
  show ?case
  proof (cases ms)
    case Nil
    then show ?thesis using Cons.IH [of "[]" info] by simp
  next
    case (Cons varname matches)
    show ?thesis
    proof (cases "toLowerCase varname = ''activenote'' \<and> truthy anc")
      case True
      then show ?thesis using Cons Cons.IH [of matches info] by simp
    next
      case False
      have step: "\<And>info. appendVariables (varname # matches) (c # cs) anc info
            = appendVariables matches cs anc
                (info @ ''\<newline>\<newline>'' @ varname @ '':\<newline>\<newline>'' @ c)"
        by (subst appendVariables.simps) (rule if_not_P [OF False])
      show ?thesis
        using Cons.IH [of matches "info @ ''\<newline>\<newline>'' @ varname @ '':\<newline>\<newline>'' @ c"]
          Cons.IH [of matches "[] @ ''\<newline>\<newline>'' @ varname @ '':\<newline>\<newline>'' @ c"]
        unfolding Cons step by simp
    qed
  qed
qed

lemma resolveNoteTitle_info:
  "resolveNoteTitle u v n (info, h, es)
   = (info @ fst (resolveNoteTitle u v n ([], h, [])),
      fst (snd (resolveNoteTitle u v n ([], h, []))),
      es @ snd (snd (resolveNoteTitle u v n ([], h, []))))"
  by (simp add: resolveNoteTitle_def Let_def case_prod_beta split: option.splits)

lemma noteTitleStep_info:
  "noteTitleStep u v ms n (info, h, es)
   = (info @ fst (noteTitleStep u v ms n ([], h, [])),
      fst (snd (noteTitleStep u v ms n ([], h, []))),
      es @ snd (snd (noteTitleStep u v ms n ([], h, []))))"
  using resolveNoteTitle_info [of u v n info h es] by (simp add: noteTitleStep_def)

lemma fold_noteTitleStep_info:
  "fst (fold (noteTitleStep u v ms) ns (info, h, es))
   = info @ fst (fold (noteTitleStep u v ms) ns ([], h, es))"
proof (induction ns arbitrary: info h es)
  case Nil
  then show ?case by simp
next
  case (Cons n ns)
  obtain a h' es' where s: "noteTitleStep u v ms n ([], h, []) = (a, h', es')"
    by (cases "noteTitleStep u v ms n ([], h, [])")
  have 1: "noteTitleStep u v ms n (info, h, es) = (info @ a, h', es @ es')"
    using noteTitleStep_info [of u v ms n info h es] s by simp
  have 2: "noteTitleStep u v ms n ([], h, es) = (a, h', es @ es')"
    using noteTitleStep_info [of u v ms n "[]" h es] s by simp
  show ?case
    using Cons.IH [of "info @ a" h' "es @ es'"] Cons.IH [of a h' "es @ es'"]
    by (simp add: 1 2)
qed

lemma processNoteTitles_info:
  "fst (processNoteTitles u v ms ns info) = info @ fst (processNoteTitles u v ms ns [])"
  unfolding processNoteTitles_def by (rule fold_noteTitleStep_info)

text \<open>
  What the replacement does, said without the scan: a template is a sequence of pieces
  free of \<^verbatim>\<open>{}\<close>, joined by \<^verbatim>\<open>{}\<close>; the result is the same pieces joined by
  \<^verbatim>\<open>{selectedText}\<close>.
\<close>

lemma replaceEmptyBraces_id:
  "\<not> includesStr s ''{}'' \<Longrightarrow> replaceEmptyBraces s = s"
  by (induction s rule: replaceEmptyBraces.induct) auto

lemma replaceEmptyBraces_piece:
  "\<not> includesStr s ''{}'' \<Longrightarrow>
   replaceEmptyBraces (s @ ''{}'' @ r) = s @ ''{selectedText}'' @ replaceEmptyBraces r"
proof (induction s)
  case Nil
  then show ?case by simp
next
  case (Cons a s)
  then have ih: "replaceEmptyBraces (s @ ''{}'' @ r) = s @ ''{selectedText}'' @ replaceEmptyBraces r"
    by simp
  show ?case
  proof (cases s)
    case Nil
    then show ?thesis using ih by simp
  next
    case (Cons b s')
    with Cons.prems have "\<not> (a = CHR ''{'' \<and> b = CHR ''}'')" by auto
    then show ?thesis using ih Cons by auto
  qed
qed

lemma replaceEmptyBraces_join:
  "list_all (\<lambda>piece. \<not> includesStr piece ''{}'') pieces \<Longrightarrow>
   replaceEmptyBraces (join ''{}'' pieces) = join ''{selectedText}'' pieces"
proof (induction pieces rule: induct_list012)
  case 1
  then show ?case by simp
next
  case (2 x)
  then show ?case by (simp add: replaceEmptyBraces_id)
next
  case (3 x y zs)
  then show ?case using replaceEmptyBraces_piece [of x "join ''{}'' (y # zs)"] by simp
qed

lemma selection_block_first:
  assumes "includesStr t ''{}''" and "selectedText \<noteq> []"
  shows "fst (processCustomPrompt u p t selectedText activeNote) =
           replaceEmptyBraces t @ ''\<newline>\<newline>''
           @ ''selectedText:\<newline>\<newline> '' @ selectedText
           @ appendVariables (scanVariables t)
               (fst (variableLoop u (vault p) activeNote (scanVariables t))) None []
           @ fst (processNoteTitles u (vault p) (scanVariables t)
                    (extractNoteTitles u (replaceEmptyBraces t)) [])"
proof -
  have "fst (processCustomPrompt u p t selectedText activeNote) =
          replaceEmptyBraces t @ ''\<newline>\<newline>'' @
          fst (processNoteTitles u (vault p) (scanVariables t)
                 (extractNoteTitles u (replaceEmptyBraces t))
                 (appendVariables (scanVariables t)
                    (fst (variableLoop u (vault p) activeNote (scanVariables t)))
                    None (''selectedText:\<newline>\<newline> '' @ selectedText)))"
    using assms by (simp add: processCustomPrompt_fst selectionPlaceholder_def)
  then show ?thesis
    using processNoteTitles_info [of u "vault p" "scanVariables t"
             "extractNoteTitles u (replaceEmptyBraces t)"
             "appendVariables (scanVariables t)
                    (fst (variableLoop u (vault p) activeNote (scanVariables t)))
                    None (''selectedText:\<newline>\<newline> '' @ selectedText)"]
      appendVariables_append [of "scanVariables t"
             "fst (variableLoop u (vault p) activeNote (scanVariables t))"
             None "''selectedText:\<newline>\<newline> '' @ selectedText"]
    by simp
qed

text \<open>Every template is a sequence of pieces free of \<^verbatim>\<open>{}\<close>, joined by \<^verbatim>\<open>{}\<close>.\<close>

lemma join_Cons_nonempty: "ps \<noteq> [] \<Longrightarrow> join sep (x # ps) = x @ sep @ join sep ps"
  by (cases ps) simp_all

lemma pieces_exist:
  "\<exists>pieces. pieces \<noteq> [] \<and> t = join ''{}'' pieces
            \<and> list_all (\<lambda>piece. \<not> includesStr piece ''{}'') pieces"
proof (induction t rule: induct_list012)
  case 1
  have "[] = join ''{}'' [[]]" by simp
  moreover have "list_all (\<lambda>piece. \<not> includesStr piece ''{}'') [[]]" by simp
  ultimately show ?case by blast
next
  case (2 a)
  have "[a] = join ''{}'' [[a]]" by simp
  moreover have "list_all (\<lambda>piece. \<not> includesStr piece ''{}'') [[a]]" by simp
  ultimately show ?case by blast
next
  case (3 a b cs)
  show ?case
  proof (cases "a = CHR ''{'' \<and> b = CHR ''}''")
    case True
    from 3(1) obtain ps where ps: "ps \<noteq> []" "cs = join ''{}'' ps"
        "list_all (\<lambda>piece. \<not> includesStr piece ''{}'') ps" by auto
    have "a # b # cs = join ''{}'' ([] # ps)"
      using True ps(1,2) by (simp add: join_Cons_nonempty)
    moreover have "list_all (\<lambda>piece. \<not> includesStr piece ''{}'') ([] # ps)"
      using ps(3) by simp
    ultimately show ?thesis by blast
  next
    case False
    from 3(2) obtain ps where ps: "ps \<noteq> []" "b # cs = join ''{}'' ps"
        "list_all (\<lambda>piece. \<not> includesStr piece ''{}'') ps" by auto
    then obtain q qs where q: "ps = q # qs" by (cases ps) auto
    have j: "a # b # cs = join ''{}'' ((a # q) # qs)"
      using ps(2) q by (cases qs) simp_all
    have "\<not> includesStr (a # q) ''{}''"
    proof (cases q)
      case Nil
      then show ?thesis by simp
    next
      case (Cons c q')
      then have "c = b" using ps(2) q by (cases qs) simp_all
      then show ?thesis using False ps(3) q Cons by auto
    qed
    then have "list_all (\<lambda>piece. \<not> includesStr piece ''{}'') ((a # q) # qs)"
      using ps(3) q by simp
    with j show ?thesis by blast
  qed
qed

text \<open>
  Claim C4 (empty-braces placeholder). A template that contains \<^verbatim>\<open>{}\<close> is a sequence
  of pieces free of \<^verbatim>\<open>{}\<close>, joined by \<^verbatim>\<open>{}\<close>. With a non-empty selected text, the
  string returned starts with the same pieces joined by \<^verbatim>\<open>{selectedText}\<close> (every
  occurrence is replaced, and nothing else is changed); then come the separator, the
  block \<^verbatim>\<open>selectedText:\n\n <selectedText>\<close>, and the blocks of the variables and of the
  note links, if any. (The witness has the instance of the specification,
  \<^verbatim>\<open>expand("{}", "hello world", undefined)\<close>, and a template with two occurrences.)
\<close>

theorem empty_braces_placeholder:
  assumes "includesStr t ''{}''" and "selectedText \<noteq> []"
  shows "\<exists>pieces. t = join ''{}'' pieces
           \<and> list_all (\<lambda>piece. \<not> includesStr piece ''{}'') pieces
           \<and> fst (processCustomPrompt u p t selectedText activeNote) =
               join ''{selectedText}'' pieces @ ''\<newline>\<newline>''
               @ ''selectedText:\<newline>\<newline> '' @ selectedText
               @ appendVariables (scanVariables t)
                   (fst (variableLoop u (vault p) activeNote (scanVariables t))) None []
               @ fst (processNoteTitles u (vault p) (scanVariables t)
                        (extractNoteTitles u (join ''{selectedText}'' pieces)) [])"
proof -
  obtain pieces where ps: "t = join ''{}'' pieces"
      "list_all (\<lambda>piece. \<not> includesStr piece ''{}'') pieces"
    using pieces_exist [of t] by blast
  have r: "replaceEmptyBraces t = join ''{selectedText}'' pieces"
    using ps replaceEmptyBraces_join by simp
  show ?thesis
    using selection_block_first [OF assms, of u p activeNote] ps unfolding r by blast
qed

theorem empty_braces_placeholder_witness:
  "fst (processCustomPrompt refUtils demoProcessor ''{}'' ''hello world'' None)
     = ''{selectedText}\<newline>\<newline>selectedText:\<newline>\<newline> hello world''
   \<and> fst (processCustomPrompt refUtils demoProcessor ''Fix {} then shorten {}'' ''hello world'' None)
     = ''Fix {selectedText} then shorten {selectedText}\<newline>\<newline>selectedText:\<newline>\<newline> hello world''"
proof -
  have n: "''hello world'' \<noteq> []" by simp
  have 1: "fst (processCustomPrompt refUtils demoProcessor ''{}'' ''hello world'' None)
     = ''{selectedText}\<newline>\<newline>selectedText:\<newline>\<newline> hello world''"
  proof -
    have h: "includesStr ''{}'' ''{}''" by simp
    obtain pieces where a: "''{}'' = join ''{}'' pieces"
      and b: "list_all (\<lambda>piece. \<not> includesStr piece ''{}'') pieces"
      and c: "fst (processCustomPrompt refUtils demoProcessor ''{}'' ''hello world'' None) =
               join ''{selectedText}'' pieces @ ''\<newline>\<newline>''
               @ ''selectedText:\<newline>\<newline> '' @ ''hello world''
               @ appendVariables (scanVariables ''{}'')
                   (fst (variableLoop refUtils (vault demoProcessor) None (scanVariables ''{}''))) None []
               @ fst (processNoteTitles refUtils (vault demoProcessor) (scanVariables ''{}'')
                        (extractNoteTitles refUtils (join ''{selectedText}'' pieces)) [])"
      using empty_braces_placeholder [OF h n, of refUtils demoProcessor None] by blast
    have "join ''{selectedText}'' pieces = replaceEmptyBraces ''{}''"
      using replaceEmptyBraces_join [OF b] a by simp
    then have j: "join ''{selectedText}'' pieces = ''{selectedText}''" by simp
    have e: "extractNoteTitles refUtils ''{selectedText}'' = []"
      by (simp add: refUtils_def refExtractNoteTitles_def)
    show ?thesis unfolding c j by (simp add: e processNoteTitles_def)
  qed
  have 2: "fst (processCustomPrompt refUtils demoProcessor ''Fix {} then shorten {}'' ''hello world'' None)
     = ''Fix {selectedText} then shorten {selectedText}\<newline>\<newline>selectedText:\<newline>\<newline> hello world''"
  proof -
    have h: "includesStr ''Fix {} then shorten {}'' ''{}''" by simp
    obtain pieces where a: "''Fix {} then shorten {}'' = join ''{}'' pieces"
      and b: "list_all (\<lambda>piece. \<not> includesStr piece ''{}'') pieces"
      and c: "fst (processCustomPrompt refUtils demoProcessor ''Fix {} then shorten {}'' ''hello world'' None) =
               join ''{selectedText}'' pieces @ ''\<newline>\<newline>''
               @ ''selectedText:\<newline>\<newline> '' @ ''hello world''
               @ appendVariables (scanVariables ''Fix {} then shorten {}'')
                   (fst (variableLoop refUtils (vault demoProcessor) None
                           (scanVariables ''Fix {} then shorten {}''))) None []
               @ fst (processNoteTitles refUtils (vault demoProcessor)
                        (scanVariables ''Fix {} then shorten {}'')
                        (extractNoteTitles refUtils (join ''{selectedText}'' pieces)) [])"
      using empty_braces_placeholder [OF h n, of refUtils demoProcessor None] by blast
    have "join ''{selectedText}'' pieces = replaceEmptyBraces ''Fix {} then shorten {}''"
      using replaceEmptyBraces_join [OF b] a by simp
    then have j: "join ''{selectedText}'' pieces = ''Fix {selectedText} then shorten {selectedText}''"
      by simp
    have e: "extractNoteTitles refUtils ''Fix {selectedText} then shorten {selectedText}'' = []"
      by (simp add: refUtils_def refExtractNoteTitles_def)
    show ?thesis unfolding c j by (simp add: e processNoteTitles_def)
  qed
  show ?thesis using 1 2 by blast
qed

section \<open>Duplicate suppression\<close>

text \<open>What resolving one title adds to the additional info and leaves as the heading.\<close>

lemma resolveNoteTitle_blocks:
  "(case resolveNoteTitle u v n (info, h, es) of (i, h', es') \<Rightarrow> (i, h'))
   = (let (parsedNoteTitle, heading) = parseNoteTitle n h
      in case getNoteFileFromTitle u v parsedNoteTitle of
           None \<Rightarrow> (info, heading)
         | Some noteFile \<Rightarrow>
             (info @ ''\<newline>\<newline>[['' @ n @ '']]:\<newline>\<newline>''
                @ strOf (getFileContent u noteFile v heading), heading))"
  by (simp add: resolveNoteTitle_def Let_def case_prod_beta split: option.splits)

lemma fold_resolveNoteTitle_blocks:
  "(case fold (resolveNoteTitle u v) ns (info, h, es) of (i, h', es') \<Rightarrow> (i, h'))
   = fold (\<lambda>noteTitle (blocks, noteHeading).
             let (parsedNoteTitle, heading) = parseNoteTitle noteTitle noteHeading
             in case getNoteFileFromTitle u v parsedNoteTitle of
                  None \<Rightarrow> (blocks, heading)
                | Some noteFile \<Rightarrow>
                    (blocks @ ''\<newline>\<newline>[['' @ noteTitle @ '']]:\<newline>\<newline>''
                       @ strOf (getFileContent u noteFile v heading), heading))
       ns (info, h)"
proof (induction ns arbitrary: info h es)
  case Nil
  then show ?case by simp
next
  case (Cons n ns)
  obtain i h' es' where r: "resolveNoteTitle u v n (info, h, es) = (i, h', es')"
    by (cases "resolveNoteTitle u v n (info, h, es)")
  show ?case
    using Cons.IH [of i h' es'] resolveNoteTitle_blocks [of u v n info h es]
    by (simp add: r)
qed

text \<open>
  Claim C1 (duplicate suppression). The string that \<open>processCustomPrompt\<close> returns for a
  template \<open>t\<close> is the processed prompt, the separator, the blocks of the variables, and
  then what resolving the note titles one after the other adds, where the titles
  resolved are exactly the extracted titles \<open>n\<close> for which \<^verbatim>\<open>[[n]]\<close> is not a substring
  of the raw inner text of any \<^verbatim>\<open>{...}\<close> span matched in \<open>t\<close>. Resolving a title is
  written out: the title is parsed, its file is looked up, and a file that is found adds
  the block \<^verbatim>\<open>\n\n[[title]]:\n\n<content>\<close>. A title whose \<^verbatim>\<open>[[title]]\<close> does occur in
  a variable's raw text is passed over: it adds no block and does not touch the
  heading. (In the witness the link \<^verbatim>\<open>[[A]]\<close> adds nothing beside the variable
  \<^verbatim>\<open>{[[A]]}\<close>, whose block carries the heading line \<^verbatim>\<open>## A\<close>, and adds its block
  without it.)
\<close>

theorem note_link_duplicate_suppression:
  "fst (processCustomPrompt u p t selectedText activeNote) =
     (case selectionPlaceholder u (vault p) t selectedText activeNote of
        (processedPrompt, additionalInfo0, activeNoteContent) \<Rightarrow>
          processedPrompt @ ''\<newline>\<newline>''
          @ appendVariables (scanVariables t)
              (fst (variableLoop u (vault p) activeNote (scanVariables t)))
              activeNoteContent additionalInfo0
          @ fst (fold (\<lambda>noteTitle (blocks, noteHeading).
                         let (parsedNoteTitle, heading) = parseNoteTitle noteTitle noteHeading
                         in case getNoteFileFromTitle u (vault p) parsedNoteTitle of
                              None \<Rightarrow> (blocks, heading)
                            | Some noteFile \<Rightarrow>
                                (blocks @ ''\<newline>\<newline>[['' @ noteTitle @ '']]:\<newline>\<newline>''
                                   @ strOf (getFileContent u noteFile (vault p) heading), heading))
                   (filter (\<lambda>n. \<not> (\<exists>m\<in>set (scanVariables t).
                                      \<exists>pre suf. m = pre @ ''[['' @ n @ '']]'' @ suf))
                      (extractNoteTitles u processedPrompt))
                   ([], None)))"
proof -
  obtain pp info0 anc where s: "selectionPlaceholder u (vault p) t selectedText activeNote = (pp, info0, anc)"
    by (cases "selectionPlaceholder u (vault p) t selectedText activeNote")
  let ?ns = "filter (\<lambda>n. \<not> alreadyProcessed (scanVariables t) n) (extractNoteTitles u pp)"
  have "fst (processNoteTitles u (vault p) (scanVariables t) (extractNoteTitles u pp) info)
        = info @ fst (fold (resolveNoteTitle u (vault p)) ?ns ([], None, []))" for info
    using processNoteTitles_info [of u "vault p" "scanVariables t" "extractNoteTitles u pp" info]
    by (simp add: processNoteTitles_def fold_noteTitleStep)
  moreover have "fst (fold (resolveNoteTitle u (vault p)) ?ns ([], None, []))
        = fst (case fold (resolveNoteTitle u (vault p)) ?ns ([], None, []) of (i, h', es') \<Rightarrow> (i, h'))"
    by (simp add: case_prod_beta)
  ultimately show ?thesis
    unfolding processCustomPrompt_fst s
    by (simp add: fold_resolveNoteTitle_blocks alreadyProcessed_iff)
qed

theorem note_link_duplicate_suppression_witness:
  "fst (processCustomPrompt refUtils demoProcessor ''{[[A]]} [[A]] [[B#Rest]]'' [] None)
     = ''{[[A]]} [[A]] [[B#Rest]]'' @ ''\<newline>\<newline>''
       @ ''\<newline>\<newline>[[A]]:\<newline>\<newline>## A\<newline>\<newline># A\<newline>alpha\<newline>## Intro\<newline>intro of A\<newline>## Other\<newline>other text''
       @ ''\<newline>\<newline>[[B#Rest]]:\<newline>\<newline>## Rest\<newline>rest of B #t1''
   \<and> fst (processCustomPrompt refUtils demoProcessor ''[[A]] [[B#Rest]]'' [] None)
     = ''[[A]] [[B#Rest]]'' @ ''\<newline>\<newline>''
       @ ''\<newline>\<newline>[[A]]:\<newline>\<newline># A\<newline>alpha\<newline>## Intro\<newline>intro of A\<newline>## Other\<newline>other text''
       @ ''\<newline>\<newline>[[B#Rest]]:\<newline>\<newline>## Rest\<newline>rest of B #t1''"
proof -
  let ?t = "''{[[A]]} [[A]] [[B#Rest]]''"
  let ?t' = "''[[A]] [[B#Rest]]''"
  let ?f = "\<lambda>noteTitle (blocks, noteHeading).
              let (parsedNoteTitle, heading) = parseNoteTitle noteTitle noteHeading
              in case getNoteFileFromTitle refUtils (vault demoProcessor) parsedNoteTitle of
                   None \<Rightarrow> (blocks, heading)
                 | Some noteFile \<Rightarrow>
                     (blocks @ ''\<newline>\<newline>[['' @ noteTitle @ '']]:\<newline>\<newline>''
                        @ strOf (getFileContent refUtils noteFile (vault demoProcessor) heading), heading)"
  have sel: "selectionPlaceholder refUtils (vault demoProcessor) ?t [] None = (?t, [], None)"
    by (simp add: selectionPlaceholder_def)
  have sel': "selectionPlaceholder refUtils (vault demoProcessor) ?t' [] None = (?t', [], None)"
    by (simp add: selectionPlaceholder_def)
  have sv: "scanVariables ?t = [''[[A]]'']" by simp
  have sv': "scanVariables ?t' = []" by simp
  have vl: "fst (variableLoop refUtils (vault demoProcessor) None [''[[A]]''])
            = [''## A\<newline>\<newline># A\<newline>alpha\<newline>## Intro\<newline>intro of A\<newline>## Other\<newline>other text'']"
    by code_simp
  have ex: "extractNoteTitles refUtils ?t = [''A'', ''A'', ''B#Rest'']"
    by (simp add: refUtils_def refExtractNoteTitles_def)
  have ex': "extractNoteTitles refUtils ?t' = [''A'', ''B#Rest'']"
    by (simp add: refUtils_def refExtractNoteTitles_def)
  have f: "filter (\<lambda>n. \<not> (\<exists>m\<in>set [''[[A]]'']. \<exists>pre suf. m = pre @ ''[['' @ n @ '']]'' @ suf))
             [''A'', ''A'', ''B#Rest''] = [''B#Rest'']"
    unfolding alreadyProcessed_iff [symmetric] by (simp add: alreadyProcessed_def)
  have r: "fold ?f [''B#Rest''] ([], None)
           = (''\<newline>\<newline>[[B#Rest]]:\<newline>\<newline>## Rest\<newline>rest of B #t1'', Some ''Rest'')"
    by code_simp
  have p1: "parseNoteTitle ''A'' None = (''A'', None)" by code_simp
  have p2: "parseNoteTitle ''B#Rest'' None = (''B'', Some ''Rest'')" by code_simp
  have g1: "getNoteFileFromTitle refUtils (vault demoProcessor) ''A'' = Some ''Notes/A.md''"
    by code_simp
  have g2: "getNoteFileFromTitle refUtils (vault demoProcessor) ''B'' = Some ''Notes/B.md''"
    by code_simp
  have c1: "getFileContent refUtils ''Notes/A.md'' (vault demoProcessor) None
            = Some ''# A\<newline>alpha\<newline>## Intro\<newline>intro of A\<newline>## Other\<newline>other text''"
    by code_simp
  have c2: "getFileContent refUtils ''Notes/B.md'' (vault demoProcessor) (Some ''Rest'')
            = Some ''## Rest\<newline>rest of B #t1''"
    by code_simp
  have 1: "fst (processCustomPrompt refUtils demoProcessor ?t [] None)
     = ?t @ ''\<newline>\<newline>''
       @ ''\<newline>\<newline>[[A]]:\<newline>\<newline>## A\<newline>\<newline># A\<newline>alpha\<newline>## Intro\<newline>intro of A\<newline>## Other\<newline>other text''
       @ ''\<newline>\<newline>[[B#Rest]]:\<newline>\<newline>## Rest\<newline>rest of B #t1''"
    using note_link_duplicate_suppression [of refUtils demoProcessor ?t "[]" None]
    unfolding sel prod.case sv vl ex f r by simp
  have 2: "fst (processCustomPrompt refUtils demoProcessor ?t' [] None)
     = ?t' @ ''\<newline>\<newline>''
       @ ''\<newline>\<newline>[[A]]:\<newline>\<newline># A\<newline>alpha\<newline>## Intro\<newline>intro of A\<newline>## Other\<newline>other text''
       @ ''\<newline>\<newline>[[B#Rest]]:\<newline>\<newline>## Rest\<newline>rest of B #t1''"
    using note_link_duplicate_suppression [of refUtils demoProcessor ?t' "[]" None]
    unfolding sel' prod.case sv' ex' by (simp add: p1 p2 g1 g2 c1 c2)
  show ?thesis using 1 2 by blast
qed

section \<open>Variables\<close>

lemma variableNotes_notices:
  "filter isNotice (snd (variableNotes u v an x))
   = (if toLowerCase x = ''activenote'' \<and> an = None then [Notice ''No active note found.''] else [])"
  by (simp add: variableNotes_def contentLog_def Let_def filter_map comp_def split: option.splits)

lemma variableStep_notes:
  "fst (variableStep u v activeNote m)
     = (if nonEmptyMatches u v activeNote m = [] then []
        else [markdownContent
                (map (\<lambda>f. (getFileName u f, strOf (getFileContent u f v None)))
                   (nonEmptyMatches u v activeNote m))])"
  using variableNotes_nonEmptyMatches [of u v activeNote m]
  by (simp add: variableStep_def Let_def case_prod_beta)

lemma variableStep_notices:
  "filter isNotice (snd (variableStep u v activeNote m))
     = (if nonEmptyMatches u v activeNote m = []
        then (if toLowerCase (trim m) = ''activenote'' \<and> activeNote = None
              then [Notice ''No active note found.''] else [])
             @ [noNotesWarning (trim m)]
        else [])"
proof (cases "nonEmptyMatches u v activeNote m = []")
  case True
  then show ?thesis
    using variableNotes_nonEmptyMatches [of u v activeNote m]
      variableNotes_notices [of u v activeNote "trim m"]
    by (simp add: variableStep_def Let_def case_prod_beta noNotesWarning_def)
next
  case False
  then have "matchedFiles u v activeNote (trim m) \<noteq> []"
    by (auto simp: nonEmptyMatches_def)
  then have "\<not> (toLowerCase (trim m) = ''activenote'' \<and> activeNote = None)"
    by (auto simp: matchedFiles_def split: option.splits)
  then have "filter isNotice (snd (variableNotes u v activeNote (trim m))) = []"
    using variableNotes_notices [of u v activeNote "trim m"] by simp
  with False show ?thesis
    using variableNotes_nonEmptyMatches [of u v activeNote m]
    by (simp add: variableStep_def Let_def case_prod_beta)
qed

lemma filter_concat_map:
  "filter P (concat (map f xs)) = concat (map (\<lambda>x. filter P (f x)) xs)"
  by (induction xs) simp_all

text \<open>
  Claim C10 (empty notes and the warning). \<open>extractVariablesFromPrompt\<close> returns, for
  each matched variable in order, one merged block made of the matched notes whose
  content is not empty (a matched note with empty content is left out of the block), and
  no block when there is no such note. The notifications it shows are, for each
  variable in order: nothing when some matched note has content, even if other matched
  notes are empty; the warning that no valid notes were found when no matched note has
  content (after "No active note found." for \<^verbatim>\<open>activeNote\<close> without an active note).
\<close>

theorem empty_notes_dropped_and_warning:
  "fst (extractVariablesFromPrompt u p t activeNote)
     = concat (map (\<lambda>m. if nonEmptyMatches u (vault p) activeNote m = [] then []
                         else [markdownContent
                                 (map (\<lambda>f. (getFileName u f, strOf (getFileContent u f (vault p) None)))
                                    (nonEmptyMatches u (vault p) activeNote m))])
                 (scanVariables t))
   \<and> filter isNotice (effects (snd (extractVariablesFromPrompt u p t activeNote)))
     = filter isNotice (effects p)
       @ concat (map (\<lambda>m. if nonEmptyMatches u (vault p) activeNote m = []
                           then (if toLowerCase (trim m) = ''activenote'' \<and> activeNote = None
                                 then [Notice ''No active note found.''] else [])
                                @ [noNotesWarning (trim m)]
                           else [])
                   (scanVariables t))"
  by (simp add: extractVariables_eq variableLoop_concat effects_emit filter_concat_map
        variableStep_notes variableStep_notices)

theorem empty_notes_dropped_and_warning_witness:
  "matchedFiles refUtils (vault demoProcessor) None ''Notes''
     = [''Notes/A.md'', ''Notes/B.md'', ''Notes/Empty.md'']
   \<and> fst (extractVariablesFromPrompt refUtils demoProcessor ''{Notes} {Notes/Empty}'' None)
     = [''## A\<newline>\<newline># A\<newline>alpha\<newline>## Intro\<newline>intro of A\<newline>## Other\<newline>other text''
        @ ''\<newline>\<newline>## B\<newline>\<newline>bravo\<newline>## Intro\<newline>intro of B\<newline>## Rest\<newline>rest of B #t1'']
   \<and> filter isNotice (effects (snd (extractVariablesFromPrompt refUtils demoProcessor
                                     ''{Notes} {Notes/Empty}'' None)))
     = [noNotesWarning ''Notes/Empty'']"
proof -
  have s: "scanVariables ''{Notes} {Notes/Empty}'' = [''Notes'', ''Notes/Empty'']" by simp
  have m1: "matchedFiles refUtils (vault demoProcessor) None ''Notes''
            = [''Notes/A.md'', ''Notes/B.md'', ''Notes/Empty.md'']"
    by code_simp
  have n1: "nonEmptyMatches refUtils (vault demoProcessor) None ''Notes''
            = [''Notes/A.md'', ''Notes/B.md'']"
    by code_simp
  have n2: "nonEmptyMatches refUtils (vault demoProcessor) None ''Notes/Empty'' = []"
    by code_simp
  have c1: "markdownContent
              [(getFileName refUtils ''Notes/A.md'',
                strOf (getFileContent refUtils ''Notes/A.md'' (vault demoProcessor) None)),
               (getFileName refUtils ''Notes/B.md'',
                strOf (getFileContent refUtils ''Notes/B.md'' (vault demoProcessor) None))]
            = ''## A\<newline>\<newline># A\<newline>alpha\<newline>## Intro\<newline>intro of A\<newline>## Other\<newline>other text''
              @ ''\<newline>\<newline>## B\<newline>\<newline>bravo\<newline>## Intro\<newline>intro of B\<newline>## Rest\<newline>rest of B #t1''"
    by code_simp
  have t2: "trim ''Notes/Empty'' = ''Notes/Empty''" by (simp add: trim_def isSpace_def)
  have l: "toLowerCase ''Notes/Empty'' \<noteq> ''activenote''" by code_simp
  have e: "effects demoProcessor = []" by (simp add: demoProcessor_def)
  show ?thesis
    using empty_notes_dropped_and_warning [of refUtils demoProcessor "''{Notes} {Notes/Empty}''" None]
    unfolding s by (simp add: m1 n1 n2 c1 t2 e l)
qed

lemma toLowerCase_activeNote: "toLowerCase ''activeNote'' = ''activenote''"
  by code_simp

lemma trim_activeNote: "trim ''activeNote'' = ''activeNote''"
  by (simp add: trim_def isSpace_def)

text \<open>
  Claim C2, as stated (the block labelled \<^verbatim>\<open>activeNote\<close> holds the note's content and
  nothing else), fails: the active note \<^verbatim>\<open>Journal/Today.md\<close> has the content
  "today I wrote", and the block holds the heading line \<^verbatim>\<open>## Today\<close> and an empty line
  before it.
\<close>

theorem active_note_block_counterexample:
  "getFileContent refUtils ''Journal/Today.md'' (vault demoProcessor) None = Some ''today I wrote''
   \<and> fst (processCustomPrompt refUtils demoProcessor ''{activeNote}'' [] (Some ''Journal/Today.md''))
       = ''{activeNote}\<newline>\<newline>\<newline>\<newline>activeNote:\<newline>\<newline>## Today\<newline>\<newline>today I wrote''
   \<and> fst (processCustomPrompt refUtils demoProcessor ''{activeNote}'' [] (Some ''Journal/Today.md''))
       \<noteq> ''{activeNote}\<newline>\<newline>\<newline>\<newline>activeNote:\<newline>\<newline>today I wrote''"
  by code_simp

text \<open>
  Claim C2, amended. For an active note with non-empty content, and with no note link
  extracted from the template \<^verbatim>\<open>{activeNote}\<close>, \<open>processCustomPrompt\<close> returns the
  template, the separator, and one block labelled \<^verbatim>\<open>activeNote\<close> whose content is the
  heading line \<^verbatim>\<open>## <name of the note>\<close>, an empty line, and then the note's full
  content.
\<close>

theorem active_note_block:
  assumes "getFileContent u note (vault p) None = Some content"
    and "content \<noteq> []"
    and "extractNoteTitles u ''{activeNote}'' = []"
  shows "fst (processCustomPrompt u p ''{activeNote}'' selectedText (Some note))
         = ''{activeNote}'' @ ''\<newline>\<newline>''
           @ ''\<newline>\<newline>activeNote:\<newline>\<newline>''
           @ ''## '' @ getFileName u note @ ''\<newline>\<newline>'' @ content"
proof -
  have s: "scanVariables ''{activeNote}'' = [''activeNote'']" by simp
  have i: "\<not> includesStr ''{activeNote}'' ''{}''" by simp
  have v: "variableStep u (vault p) (Some note) ''activeNote''
           = ([''## '' @ getFileName u note @ ''\<newline>\<newline>'' @ content], [])"
    using assms(1,2)
    by (simp add: variableStep_def variableNotes_def trim_activeNote toLowerCase_activeNote
          markdownContent_def)
  show ?thesis
    using assms(3)
    by (simp add: processCustomPrompt_fst selectionPlaceholder_def s i v
          processNoteTitles_def toLowerCase_activeNote)
qed

theorem active_note_block_witness:
  "fst (processCustomPrompt refUtils demoProcessor ''{activeNote}'' [] (Some ''Journal/Today.md''))
   = ''{activeNote}'' @ ''\<newline>\<newline>''
     @ ''\<newline>\<newline>activeNote:\<newline>\<newline>''
     @ ''## '' @ ''Today'' @ ''\<newline>\<newline>'' @ ''today I wrote''"
proof -
  have h1: "getFileContent refUtils ''Journal/Today.md'' (vault demoProcessor) None
            = Some ''today I wrote''"
    by code_simp
  have h2: "''today I wrote'' \<noteq> []" by simp
  have h3: "extractNoteTitles refUtils ''{activeNote}'' = []"
    by (simp add: refUtils_def refExtractNoteTitles_def)
  have n: "getFileName refUtils ''Journal/Today.md'' = ''Today''" by code_simp
  show ?thesis
    using active_note_block [OF h1 h2 h3, of "[]"] unfolding n by simp
qed

section \<open>Two defects of the expansion\<close>

text \<open>
  Claim C3 (heading scope per link) does not hold of the code: \<^verbatim>\<open>noteHeading\<close> is
  declared before the loop over the note titles and is assigned only for a title with
  a \<^verbatim>\<open>#\<close>, so a later title without one is read with the heading of an earlier
  link. For a template with two links, the first with a heading and the second
  without, the block of the second link is the content of its note under the heading of
  the first link. (In the witness, the block of \<^verbatim>\<open>[[B]]\<close> is the section "Intro" of note
  B, not the note.)
\<close>

theorem note_heading_carried_over:
  assumes "scanVariables t = []"
    and "\<not> includesStr t ''{}''"
    and "extractNoteTitles u t = [first, second]"
    and "parseNoteTitle first None = (firstTitle, Some heading)"
    and "\<not> includesStr second ''#''"
    and "getNoteFileFromTitle u (vault p) firstTitle = Some firstFile"
    and "getNoteFileFromTitle u (vault p) second = Some secondFile"
  shows "fst (processCustomPrompt u p t selectedText activeNote)
         = t @ ''\<newline>\<newline>''
           @ ''\<newline>\<newline>[['' @ first @ '']]:\<newline>\<newline>''
           @ strOf (getFileContent u firstFile (vault p) (Some heading))
           @ ''\<newline>\<newline>[['' @ second @ '']]:\<newline>\<newline>''
           @ strOf (getFileContent u secondFile (vault p) (Some heading))"
proof -
  have 1: "resolveNoteTitle u (vault p) first ([], None, [])
           = (''\<newline>\<newline>[['' @ first @ '']]:\<newline>\<newline>''
                @ strOf (getFileContent u firstFile (vault p) (Some heading)),
              Some heading,
              snd (snd (resolveNoteTitle u (vault p) first ([], None, []))))"
    using assms(4,6) by (simp add: resolveNoteTitle_def Let_def)
  have 2: "fst (resolveNoteTitle u (vault p) second (info, Some heading, es))
           = info @ ''\<newline>\<newline>[['' @ second @ '']]:\<newline>\<newline>''
               @ strOf (getFileContent u secondFile (vault p) (Some heading))" for info es
    using assms(5,7) by (simp add: resolveNoteTitle_def parseNoteTitle_def Let_def)
  have "fst (processCustomPrompt u p t selectedText activeNote)
        = t @ ''\<newline>\<newline>''
          @ fst (resolveNoteTitle u (vault p) second (resolveNoteTitle u (vault p) first ([], None, [])))"
    using assms(1,2,3)
    by (simp add: processCustomPrompt_fst selectionPlaceholder_def processNoteTitles_def
          noteTitleStep_def alreadyProcessed_def)
  then show ?thesis by (subst (asm) 1) (simp add: 2)
qed

theorem note_heading_carried_over_witness:
  "fst (processCustomPrompt refUtils demoProcessor ''[[A#Intro]] [[B]]'' [] None)
     = ''[[A#Intro]] [[B]]'' @ ''\<newline>\<newline>''
       @ ''\<newline>\<newline>[[A#Intro]]:\<newline>\<newline>'' @ ''## Intro\<newline>intro of A''
       @ ''\<newline>\<newline>[[B]]:\<newline>\<newline>'' @ ''## Intro\<newline>intro of B''
   \<and> getFileContent refUtils ''Notes/B.md'' (vault demoProcessor) None
     = Some ''bravo\<newline>## Intro\<newline>intro of B\<newline>## Rest\<newline>rest of B #t1''"
proof -
  have h1: "scanVariables ''[[A#Intro]] [[B]]'' = []" by simp
  have h2: "\<not> includesStr ''[[A#Intro]] [[B]]'' ''{}''" by simp
  have h3: "extractNoteTitles refUtils ''[[A#Intro]] [[B]]'' = [''A#Intro'', ''B'']"
    by (simp add: refUtils_def refExtractNoteTitles_def)
  have h4: "parseNoteTitle ''A#Intro'' None = (''A'', Some ''Intro'')" by code_simp
  have h5: "\<not> includesStr ''B'' ''#''" by simp
  have h6: "getNoteFileFromTitle refUtils (vault demoProcessor) ''A'' = Some ''Notes/A.md''"
    by code_simp
  have h7: "getNoteFileFromTitle refUtils (vault demoProcessor) ''B'' = Some ''Notes/B.md''"
    by code_simp
  have a: "getFileContent refUtils ''Notes/A.md'' (vault demoProcessor) (Some ''Intro'')
           = Some ''## Intro\<newline>intro of A''"
    by code_simp
  have b: "getFileContent refUtils ''Notes/B.md'' (vault demoProcessor) (Some ''Intro'')
           = Some ''## Intro\<newline>intro of B''"
    by code_simp
  have c: "getFileContent refUtils ''Notes/B.md'' (vault demoProcessor) None
           = Some ''bravo\<newline>## Intro\<newline>intro of B\<newline>## Rest\<newline>rest of B #t1''"
    by code_simp
  show ?thesis
    using note_heading_carried_over [OF h1 h2 h3 h4 h5 h6 h7, of "[]" None] c
    unfolding a b by simp
qed

text \<open>
  Claim C5 (a block is labelled with the raw text of its own span) does not hold of the
  code: \<^verbatim>\<open>variablesWithContent\<close> has an entry only for a variable with notes, but the
  label of entry \<open>i\<close> is taken from match \<open>i\<close>. For a template with two variables, of
  which the first has no note with content and the second has one, the only block is
  labelled with the raw text of the first variable and holds the content of the second.
\<close>

theorem block_label_of_other_variable:
  assumes "scanVariables t = [m1, m2]"
    and "\<not> includesStr t ''{}''"
    and "extractNoteTitles u t = []"
    and "nonEmptyMatches u (vault p) activeNote m1 = []"
    and "nonEmptyMatches u (vault p) activeNote m2 \<noteq> []"
  shows "fst (processCustomPrompt u p t selectedText activeNote)
         = t @ ''\<newline>\<newline>''
           @ ''\<newline>\<newline>'' @ m1 @ '':\<newline>\<newline>''
           @ markdownContent
               (map (\<lambda>f. (getFileName u f, strOf (getFileContent u f (vault p) None)))
                  (nonEmptyMatches u (vault p) activeNote m2))"
  using assms
  by (simp add: processCustomPrompt_fst selectionPlaceholder_def processNoteTitles_def
        variableLoop_concat variableStep_notes)

theorem block_label_of_other_variable_witness:
  "fst (processCustomPrompt refUtils demoProcessor ''{missing} {activeNote}'' []
          (Some ''Journal/Today.md''))
   = ''{missing} {activeNote}'' @ ''\<newline>\<newline>''
     @ ''\<newline>\<newline>missing:\<newline>\<newline>'' @ ''## Today\<newline>\<newline>today I wrote''"
proof -
  have h1: "scanVariables ''{missing} {activeNote}'' = [''missing'', ''activeNote'']" by simp
  have h2: "\<not> includesStr ''{missing} {activeNote}'' ''{}''" by simp
  have h3: "extractNoteTitles refUtils ''{missing} {activeNote}'' = []"
    by (simp add: refUtils_def refExtractNoteTitles_def)
  have h4: "nonEmptyMatches refUtils (vault demoProcessor) (Some ''Journal/Today.md'') ''missing'' = []"
    by code_simp
  have n: "nonEmptyMatches refUtils (vault demoProcessor) (Some ''Journal/Today.md'') ''activeNote''
           = [''Journal/Today.md'']"
    by code_simp
  have h5: "nonEmptyMatches refUtils (vault demoProcessor) (Some ''Journal/Today.md'') ''activeNote'' \<noteq> []"
    by (simp add: n)
  have c: "markdownContent
             [(getFileName refUtils ''Journal/Today.md'',
               strOf (getFileContent refUtils ''Journal/Today.md'' (vault demoProcessor) None))]
           = ''## Today\<newline>\<newline>today I wrote''"
    by code_simp
  show ?thesis
    using block_label_of_other_variable [OF h1 h2 h3 h4 h5, of "[]"]
    by (simp add: n c)
qed

section \<open>Renaming a stored prompt\<close>

text \<open>
  Claim C7, as stated (whenever a document exists at the new title, the call raises the
  duplicate-title error), fails when no prompt is stored under the old title: the demo
  vault has a prompt \<^verbatim>\<open>Q\<close> and none called \<^verbatim>\<open>Missing\<close>, and renaming \<^verbatim>\<open>Missing\<close> to
  \<^verbatim>\<open>Q\<close> returns without an error (and without a write).
\<close>

theorem rename_conflict_counterexample:
  "''Missing'' \<noteq> ''Q''
   \<and> getAbstractFileByPath (vault demoProcessor) (promptPath demoProcessor ''Q'')
       = Some (File ''Translate {}'')
   \<and> updatePrompt demoProcessor ''Missing'' ''Q'' ''new content'' = (None, demoProcessor)"
  by (simp add: updatePrompt_def getAbstractFileByPath_def promptPath_def demoProcessor_def
        demoVault_def)

text \<open>
  Claim C7, amended. For titles A and B that differ, if a document exists at title B,
  then \<open>updatePrompt A B content\<close> writes nothing: the processor, with its vault and its
  usage records, is after the call what it was before. The call raises the
  duplicate-title error if a prompt file is stored under A, and returns without an
  error if none is.
\<close>

theorem rename_conflict_atomicity:
  assumes "originTitle \<noteq> newTitle"
    and "getAbstractFileByPath (vault p) (promptPath p newTitle) \<noteq> None"
  shows "updatePrompt p originTitle newTitle content
         = (if (\<exists>old. getAbstractFileByPath (vault p) (promptPath p originTitle) = Some (File old))
            then Some duplicateTitleError else None,
            p)"
  using assms by (simp add: updatePrompt_def split: option.splits entry.splits)

theorem rename_conflict_atomicity_witness:
  "updatePrompt demoProcessor ''P'' ''Q'' ''new content'' = (Some duplicateTitleError, demoProcessor)"
proof -
  have h1: "''P'' \<noteq> ''Q''" by simp
  have h2: "getAbstractFileByPath (vault demoProcessor) (promptPath demoProcessor ''Q'') \<noteq> None"
    by (simp add: getAbstractFileByPath_def promptPath_def demoProcessor_def demoVault_def)
  have a: "getAbstractFileByPath (vault demoProcessor) (promptPath demoProcessor ''P'')
           = Some (File ''Summarize {}'')"
    by (simp add: getAbstractFileByPath_def promptPath_def demoProcessor_def demoVault_def)
  show ?thesis
    using rename_conflict_atomicity [OF h1 h2, of "''new content''"] by (simp add: a)
qed

section \<open>Two runs on the same repository\<close>

text \<open>
  When the helpers answer from the repository, each function of the processor over the
  host state returns what the function over the vault returns at the repository, and
  leaves the repository as it is.
\<close>

lemma answersFrom_simps:
  assumes "answersFrom repo u h"
  shows "fst (runExtractNoteTitles h s w) = extractNoteTitles u s"
    and "repo (snd (runExtractNoteTitles h s w)) = repo w"
    and "fst (runGetFileContent h f heading w) = getFileContent u f (repo w) heading"
    and "repo (snd (runGetFileContent h f heading w)) = repo w"
    and "fst (runGetFileName h f w) = getFileName u f"
    and "repo (snd (runGetFileName h f w)) = repo w"
    and "fst (runGetNoteFileFromTitle h title w) = getNoteFileFromTitle u (repo w) title"
    and "repo (snd (runGetNoteFileFromTitle h title w)) = repo w"
    and "fst (runGetNotesFromPath h path w) = getNotesFromPath u (repo w) path"
    and "repo (snd (runGetNotesFromPath h path w)) = repo w"
    and "fst (runGetNotesFromTags h tags w) = getNotesFromTags u (repo w) tags"
    and "repo (snd (runGetNotesFromTags h tags w)) = repo w"
    and "fst (runProcessVariableNameForNotePath h name w) = processVariableNameForNotePath u name"
    and "repo (snd (runProcessVariableNameForNotePath h name w)) = repo w"
  using assms by (simp_all add: answersFrom_def)

lemma notesOfFilesHost_answers:
  assumes a: "answersFrom repo u h"
  shows "fst (notesOfFilesHost h logged fs w)
           = (notesOfFiles u (repo w) fs, if logged then contentLog u (repo w) fs else [])
         \<and> repo (snd (notesOfFilesHost h logged fs w)) = repo w"
  by (induction fs arbitrary: w logged)
     (simp_all add: answersFrom_simps [OF a] contentLog_def Let_def case_prod_beta)

lemma variableNotesHost_answers:
  assumes a: "answersFrom repo u h"
  shows "fst (variableNotesHost h an x w) = variableNotes u (repo w) an x
         \<and> repo (snd (variableNotesHost h an x w)) = repo w"
  by (simp add: variableNotesHost_def variableNotes_def answersFrom_simps [OF a]
        notesOfFilesHost_answers [OF a, THEN conjunct1]
        notesOfFilesHost_answers [OF a, THEN conjunct2]
        Let_def case_prod_beta split: option.splits)

lemma variableStepHost_answers:
  assumes a: "answersFrom repo u h"
  shows "fst (variableStepHost h an m w) = variableStep u (repo w) an m
         \<and> repo (snd (variableStepHost h an m w)) = repo w"
  by (simp add: variableStepHost_def variableStep_def
        variableNotesHost_answers [OF a, THEN conjunct1]
        variableNotesHost_answers [OF a, THEN conjunct2] Let_def case_prod_beta)

lemma variableLoopHost_answers:
  assumes a: "answersFrom repo u h"
  shows "fst (variableLoopHost h an ms w) = variableLoop u (repo w) an ms
         \<and> repo (snd (variableLoopHost h an ms w)) = repo w"
proof (induction ms arbitrary: w)
  case Nil
  then show ?case by simp
next
  case (Cons m ms)
  note ih1 = Cons.IH [THEN conjunct1] and ih2 = Cons.IH [THEN conjunct2]
  show ?case
    by (simp add: variableStepHost_answers [OF a, THEN conjunct1]
          variableStepHost_answers [OF a, THEN conjunct2] ih1 ih2 Let_def case_prod_beta)
qed

lemma selectionPlaceholderHost_answers:
  assumes a: "answersFrom repo u h"
  shows "fst (selectionPlaceholderHost h t sel an w) = selectionPlaceholder u (repo w) t sel an
         \<and> repo (snd (selectionPlaceholderHost h t sel an w)) = repo w"
  by (simp add: selectionPlaceholderHost_def selectionPlaceholder_def answersFrom_simps [OF a]
        case_prod_beta split: option.splits)

lemma resolveNoteTitleHost_answers:
  assumes a: "answersFrom repo u h"
  shows "fst (resolveNoteTitleHost h n s w) = resolveNoteTitle u (repo w) n s
         \<and> repo (snd (resolveNoteTitleHost h n s w)) = repo w"
  by (simp add: resolveNoteTitleHost_def resolveNoteTitle_def answersFrom_simps [OF a]
        Let_def case_prod_beta split: option.splits)

lemma processNoteTitlesHost_answers:
  assumes a: "answersFrom repo u h"
  shows "fst (processNoteTitlesHost h ms ns s w) = fold (noteTitleStep u (repo w) ms) ns s
         \<and> repo (snd (processNoteTitlesHost h ms ns s w)) = repo w"
proof (induction ns arbitrary: s w)
  case Nil
  then show ?case by simp
next
  case (Cons n ns)
  note ih1 = Cons.IH [THEN conjunct1] and ih2 = Cons.IH [THEN conjunct2]
  show ?case
    by (simp add: resolveNoteTitleHost_answers [OF a, THEN conjunct1]
          resolveNoteTitleHost_answers [OF a, THEN conjunct2] ih1 ih2 noteTitleStep_def
          case_prod_beta)
qed

lemma processCustomPromptHost_answers:
  assumes a: "answersFrom repo u h" and v: "vault p = repo w"
  shows "fst (processCustomPromptHost h t sel an w)
         = (fst (processCustomPrompt u p t sel an),
            drop (length (effects p)) (effects (snd (processCustomPrompt u p t sel an))))
         \<and> repo (snd (processCustomPromptHost h t sel an w)) = repo w"
  by (simp add: processCustomPromptHost_def extractVariablesFromPromptHost_def
        answersFrom_simps [OF a] v
        variableLoopHost_answers [OF a, THEN conjunct1]
        variableLoopHost_answers [OF a, THEN conjunct2]
        selectionPlaceholderHost_answers [OF a, THEN conjunct1]
        selectionPlaceholderHost_answers [OF a, THEN conjunct2]
        processNoteTitlesHost_answers [OF a, THEN conjunct1]
        processNoteTitlesHost_answers [OF a, THEN conjunct2]
        processCustomPrompt_fst processCustomPrompt_effects processNoteTitles_def
        case_prod_beta)



lemma answersFrom_hostOf: "answersFrom (\<lambda>v. v) u (hostOf u)"
  by (simp add: answersFrom_def hostOf_def)

corollary processCustomPromptHost_hostOf:
  "fst (processCustomPromptHost (hostOf u) t sel an (vault p))
   = (fst (processCustomPrompt u p t sel an),
      drop (length (effects p)) (effects (snd (processCustomPrompt u p t sel an))))"
  using processCustomPromptHost_answers [OF answersFrom_hostOf, of p "vault p" u t sel an]
  by simp


text \<open>The hypothesis is needed: over helpers whose answers depend on more than the
  repository, the second call can return another string than the first.\<close>

lemma needs_repository_answers:
  "fst (fst (processCustomPromptHost countingHost ''{activeNote}'' [] (Some ''n'') 0))
     = ''{activeNote}\<newline>\<newline>\<newline>\<newline>activeNote:\<newline>\<newline>## n\<newline>\<newline>x''
   \<and> fst (fst (processCustomPromptHost countingHost ''{activeNote}'' [] (Some ''n'')
                  (snd (processCustomPromptHost countingHost ''{activeNote}'' [] (Some ''n'') 0))))
     = ''{activeNote}\<newline>\<newline>\<newline>\<newline>activeNote:\<newline>\<newline>## n\<newline>\<newline>xx''"
  by code_simp

end
